theory Spec2Isabelle
  imports Main "HOL-Library.Sublist" "HOL-Library.Word"
begin

unbundle bit_operations_syntax

section \<open>The map mirror (src/main.ts)\<close>

text \<open>
  A shallow embedding of the mirror script. JavaScript strings and byte arrays are
  lists of characters; \<open>s.startsWith(p)\<close> is \<open>prefix p s\<close>, \<open>s.endsWith(p)\<close> is
  \<open>suffix p s\<close> and \<open>s.length\<close> is \<open>length s\<close>. Every effect of the script (network
  requests, sleeps, file-system calls, console output) is appended to a trace of events,
  and what the outside world answers is read from an environment that may depend on
  the trace so far. A rejected promise or a thrown exception is the left summand of the
  result; a retry loop takes fuel and returns \<open>None\<close> when the fuel runs out.
\<close>

subsection \<open>Strings and numbers\<close>

type_synonym bytes = string

definition digit_char :: "nat \<Rightarrow> char" where
  "digit_char d = ''0123456789'' ! d"

text \<open>A number in a template literal (\<open>`${zoom}`\<close>): its decimal digits.\<close>

fun show_nat :: "nat \<Rightarrow> string" where
  "show_nat n = (if n < 10 then [digit_char n] else show_nat (n div 10) @ [digit_char (n mod 10)])"

declare show_nat.simps [simp del]

text \<open>\<open>Math.pow(2, i) * 250\<close>, the delay before retry \<open>i\<close>.\<close>

definition backoff :: "nat \<Rightarrow> nat" where
  "backoff i = 2 ^ i * 250"

subsection \<open>Run configuration and constants\<close>

record config =
  outdir :: string
  canReuseCache :: bool
  shouldDownloadTiles :: bool
  shouldDownloadAssets :: bool
  shouldDownloadZones :: bool
  shouldDownloadZoneIcons :: bool
  refresh :: bool

text \<open>
  The flags of \<open>Deno.args\<close>. \<open>readGranted\<close> is the outcome of the read-permission query
  (or request) on the output directory.
\<close>

fun outdirOfArgs :: "string list \<Rightarrow> string" where
  "outdirOfArgs [] = ''mirror''"
| "outdirOfArgs (flag # flags) =
     (if prefix ''--outdir='' flag
      then (if drop 9 flag = [] then ''mirror'' else drop 9 flag)
      else outdirOfArgs flags)"

definition configOfArgs :: "string list \<Rightarrow> bool \<Rightarrow> config" where
  "configOfArgs args readGranted =
     \<lparr> outdir = outdirOfArgs args,
       canReuseCache = readGranted,
       shouldDownloadTiles = (''--no-tiles'' \<notin> set args),
       shouldDownloadAssets = (''--no-assets'' \<notin> set args),
       shouldDownloadZones = (''--no-zones'' \<notin> set args),
       shouldDownloadZoneIcons = (''--no-zone-icons'' \<notin> set args),
       refresh = (''--refresh'' \<in> set args) \<rparr>"

definition origin :: string where
  "origin = ''https://papunika.com''"

definition rootUrl :: string where
  "rootUrl = origin @ ''/map''"

definition world :: string where
  "world = rootUrl @ ''/data/zones/us/overworld.json''"

definition assets :: "string list" where
  "assets =
     [''island'', ''islandPvP'', ''affinity'', ''astory'', ''food'', ''ingredient'',
      ''mokoko'', ''spassage'', ''viewpoint'', ''hstory'', ''minuet'', ''resonance'',
      ''monster'', ''boss'', ''boss'', ''notice'', ''merchant'', ''ogate'', ''ghost'',
      ''emarine'', ''smerchant'', ''cdotr'', ''cdotb'', ''cdotg'']"

subsection \<open>Tile enumeration\<close>

text \<open>
  \<open>downloadTiles(url, maxZoom)\<close> builds, for \<open>zoom = 0, ..., maxZoom - 1\<close>, for
  \<open>x = 0, ..., 2^zoom - 1\<close> and \<open>y = 0, ..., 2^zoom - 1\<close>, the call
  \<open>tryPublicFetchOrCached(url(zoom, x, y))\<close>, and flattens the nested arrays. The
  model returns the URLs of these calls in the order they are made; each call is the
  function \<open>tryPublicFetchOrCached\<close> below, applied to that URL.
\<close>

definition downloadTiles :: "(nat \<Rightarrow> nat \<Rightarrow> nat \<Rightarrow> string) \<Rightarrow> nat \<Rightarrow> string list" where
  "downloadTiles url maxZoom =
     concat (concat
       (map (\<lambda>zoom.
          map (\<lambda>x.
            map (\<lambda>y. url zoom x y) [0 ..< 2 ^ zoom])
            [0 ..< 2 ^ zoom])
          [0 ..< maxZoom]))"



subsection \<open>Errors, events and the environment\<close>

text \<open>
  What the script can throw. \<open>BadStatusCodeError\<close> is the script's own class; the
  others stand for the errors of the runtime: a rejected \<open>fetch\<close> or body read, a
  \<open>Deno\<close> file-system error (kept by its \<open>name\<close>), the \<open>TypeError\<close> of \<open>new URL\<close> or of
  destructuring \<open>undefined\<close>, the \<open>SyntaxError\<close> of \<open>JSON.parse\<close>, and \<open>new Error(message)\<close>.
\<close>

datatype exn =
    BadStatusCodeError nat
  | FetchFailed
  | DenoError string
  | TypeError string
  | SyntaxError
  | Error string

definition exn_name :: "exn \<Rightarrow> string" where
  "exn_name e =
     (case e of
        BadStatusCodeError _ \<Rightarrow> ''Error''
      | FetchFailed \<Rightarrow> ''TypeError''
      | DenoError n \<Rightarrow> n
      | TypeError _ \<Rightarrow> ''TypeError''
      | SyntaxError \<Rightarrow> ''SyntaxError''
      | Error _ \<Rightarrow> ''Error'')"

text \<open>The message of an error, as the console prints it.\<close>

definition exn_text :: "exn \<Rightarrow> string" where
  "exn_text e =
     (case e of
        BadStatusCodeError st \<Rightarrow>
          ''bad status code: '' @ show_nat st
            @ (if st = 403 then '' (rate limited? or ip banned? ... try again in a few minutes)''
               else [])
      | FetchFailed \<Rightarrow> ''fetch failed''
      | DenoError n \<Rightarrow> n
      | TypeError m \<Rightarrow> m
      | SyntaxError \<Rightarrow> ''SyntaxError''
      | Error m \<Rightarrow> m)"

datatype level = Log | Warn | Err

text \<open>
  The trace. \<open>Fetch\<close> is a request issued, \<open>Sleep\<close> a delay in milliseconds, \<open>ReadDir\<close>
  and \<open>ReadFile\<close> a directory enumeration and a file read attempted, \<open>Mkdir\<close> and
  \<open>WriteFile\<close> a directory created (or found present) and a file written with these
  bytes, \<open>Console\<close> a line of console output with its arguments.
\<close>

datatype event =
    Fetch string
  | Sleep nat
  | ReadDir string
  | ReadFile string
  | Mkdir string
  | WriteFile string bytes
  | Console level "string list"

record response =
  res_status :: nat
  res_contentType :: "string option"
  res_body :: "bytes option"

text \<open>
  The outside world. Each answer may depend on the trace so far. \<open>fetch_result\<close> is
  \<open>None\<close> when \<open>fetch\<close> rejects, and a response whose \<open>res_body\<close> is \<open>None\<close> fails when its
  body is read. \<open>readDir_result\<close> gives the entry names the enumeration yields and, after
  them, the name of the error it throws, if any. The other file-system calls answer with
  the name of the error they throw, if any.
\<close>

record env =
  fetch_result :: "event list \<Rightarrow> string \<Rightarrow> response option"
  readDir_result :: "event list \<Rightarrow> string \<Rightarrow> string list \<times> string option"
  readFile_result :: "event list \<Rightarrow> string \<Rightarrow> string + bytes"
  mkdir_result :: "event list \<Rightarrow> string \<Rightarrow> string option"
  writeFile_result :: "event list \<Rightarrow> string \<Rightarrow> bytes \<Rightarrow> string option"

text \<open>What a trace holds of each kind: the URLs requested, the files written, the delays.\<close>

fun fetches :: "event list \<Rightarrow> string list" where
  "fetches [] = []"
| "fetches (Fetch url # tr) = url # fetches tr"
| "fetches (e # tr) = fetches tr"

fun writes :: "event list \<Rightarrow> (string \<times> bytes) list" where
  "writes [] = []"
| "writes (WriteFile path contents # tr) = (path, contents) # writes tr"
| "writes (e # tr) = writes tr"

fun sleeps :: "event list \<Rightarrow> nat list" where
  "sleeps [] = []"
| "sleeps (Sleep ms # tr) = ms # sleeps tr"
| "sleeps (e # tr) = sleeps tr"

text \<open>
  The library functions the script imports or finds in the runtime (path utilities, URL
  parsing, text coding, digest, base64, JSON). They are parameters of the model: every
  theorem below holds for any behaviour of them. \<open>url_pathname\<close> is
  \<open>new URL(url).pathname\<close> and \<open>url_resolve rel base\<close> is \<open>new URL(rel, base).href\<close>, both
  \<open>None\<close> when the constructor throws; \<open>json_parse\<close> is \<open>None\<close> when \<open>JSON.parse\<close> throws;
  \<open>md5_hex\<close> is \<open>createHash('md5').update(contents).toString('hex')\<close>.
\<close>

record 'j lib =
  path_join :: "string \<Rightarrow> string \<Rightarrow> string"
  path_basename :: "string \<Rightarrow> string"
  path_basename_ext :: "string \<Rightarrow> string \<Rightarrow> string"
  path_dirname :: "string \<Rightarrow> string"
  path_extname :: "string \<Rightarrow> string"
  url_pathname :: "string \<Rightarrow> string option"
  url_resolve :: "string \<Rightarrow> string \<Rightarrow> string option"
  text_decode :: "bytes \<Rightarrow> string"
  text_encode :: "string \<Rightarrow> bytes"
  md5_hex :: "bytes \<Rightarrow> string"
  b64_encode :: "bytes \<Rightarrow> string"
  json_parse :: "string \<Rightarrow> 'j option"

text \<open>A value used as a condition: \<open>undefined\<close>, \<open>false\<close> and the empty string are falsy.\<close>

definition truthy :: "string option \<Rightarrow> bool" where
  "truthy v = (case v of None \<Rightarrow> False | Some s \<Rightarrow> s \<noteq> [])"

subsection \<open>Cache Index: findExistingCachedFile\<close>

text \<open>The condition of the loop over the directory entries.\<close>

definition cacheNameMatches :: "string \<Rightarrow> string \<Rightarrow> string \<Rightarrow> bool" where
  "cacheNameMatches name ext file \<longleftrightarrow>
     file = name @ ext
     \<or> prefix name file \<and> suffix ext file \<and> length file = length name + length ext + 33"

text \<open>
  The \<open>try\<close> block: the entries are read in order and the first that matches is
  returned; an error of the enumeration is thrown only if no entry before it matched.
\<close>

definition readDirLoop :: "env \<Rightarrow> event list \<Rightarrow> string \<Rightarrow> string \<Rightarrow> string \<Rightarrow> event list \<times> (exn + string option)" where
  "readDirLoop env tr dir name ext =
     (case readDir_result env tr dir of
        (files, err) \<Rightarrow>
          (case find (cacheNameMatches name ext) files of
             Some file \<Rightarrow> (tr @ [ReadDir dir], Inr (Some file))
           | None \<Rightarrow>
               (case err of
                  None \<Rightarrow> (tr @ [ReadDir dir], Inr None)
                | Some e \<Rightarrow> (tr @ [ReadDir dir], Inl (DenoError e)))))"

text \<open>
  The arguments \<open>name\<close> and \<open>ext\<close> are optional; when \<open>name\<close> is falsy it is taken from
  the path \<open>dir\<close> (and \<open>dir\<close> becomes its directory), and when \<open>ext\<close> is falsy it is split
  off the name. These are the directory, name and extension the loop then works with.
\<close>

definition lookupDir :: "'j lib \<Rightarrow> string \<Rightarrow> string option \<Rightarrow> string" where
  "lookupDir lib dir name = (if \<not> truthy name then path_dirname lib dir else dir)"

definition lookupExt :: "'j lib \<Rightarrow> string \<Rightarrow> string option \<Rightarrow> string option \<Rightarrow> string" where
  "lookupExt lib dir name ext =
     (let name1 = (if \<not> truthy name then path_basename lib dir else the name)
      in if \<not> truthy ext then path_extname lib name1 else the ext)"

definition lookupName :: "'j lib \<Rightarrow> string \<Rightarrow> string option \<Rightarrow> string option \<Rightarrow> string" where
  "lookupName lib dir name ext =
     (let name1 = (if \<not> truthy name then path_basename lib dir else the name)
      in if \<not> truthy ext then path_basename_ext lib name1 (path_extname lib name1) else name1)"

text \<open>
  The \<open>catch\<close> block warns unless the error is \<open>NotFound\<close> or \<open>PermissionDenied\<close>, and
  returns \<open>undefined\<close>.
\<close>

definition findExistingCachedFile ::
  "'j lib \<Rightarrow> env \<Rightarrow> event list \<Rightarrow> string \<Rightarrow> string option \<Rightarrow> string option
     \<Rightarrow> event list \<times> (exn + string option)" where
  "findExistingCachedFile lib env tr dir name ext =
     (case readDirLoop env tr (lookupDir lib dir name) (lookupName lib dir name ext)
             (lookupExt lib dir name ext) of
        (tr1, Inr found) \<Rightarrow> (tr1, Inr found)
      | (tr1, Inl err) \<Rightarrow>
          (if exn_name err \<noteq> ''NotFound'' \<and> exn_name err \<noteq> ''PermissionDenied''
           then (tr1 @ [Console Warn [exn_text err]], Inr None)
           else (tr1, Inr None)))"

text \<open>\<open>canReuseCache && await findExistingCachedFile(...)\<close>.\<close>

definition lookupExisting ::
  "config \<Rightarrow> 'j lib \<Rightarrow> env \<Rightarrow> event list \<Rightarrow> string \<Rightarrow> string option \<Rightarrow> string option
     \<Rightarrow> event list \<times> (exn + string option)" where
  "lookupExisting cfg lib env tr dir name ext =
     (if canReuseCache cfg then findExistingCachedFile lib env tr dir name ext
      else (tr, Inr None))"

subsection \<open>Retrying Fetcher: fetchSuccess\<close>

definition res_ok :: "response \<Rightarrow> bool" where
  "res_ok res \<longleftrightarrow> 200 \<le> res_status res \<and> res_status res \<le> 299"

definition fetchSuccess :: "env \<Rightarrow> event list \<Rightarrow> string \<Rightarrow> event list \<times> (exn + response)" where
  "fetchSuccess env tr url =
     (case fetch_result env tr url of
        None \<Rightarrow> (tr @ [Fetch url], Inl FetchFailed)
      | Some res \<Rightarrow>
          (if \<not> res_ok res then (tr @ [Fetch url], Inl (BadStatusCodeError (res_status res)))
           else (tr @ [Fetch url], Inr res)))"

text \<open>\<open>await res.arrayBuffer()\<close>.\<close>

definition arrayBuffer :: "response \<Rightarrow> exn + bytes" where
  "arrayBuffer res = (case res_body res of None \<Rightarrow> Inl FetchFailed | Some buf \<Rightarrow> Inr buf)"

subsection \<open>Direct mirroring: tryPublicFetchOrCached\<close>

text \<open>\<open>JSON.parse(new TextDecoder().decode(await Deno.readFile(filepath)))\<close>.\<close>

definition readParsed :: "'j lib \<Rightarrow> env \<Rightarrow> event list \<Rightarrow> string \<Rightarrow> event list \<times> (exn + 'j option)" where
  "readParsed lib env tr filepath =
     (case readFile_result env tr filepath of
        Inl e \<Rightarrow> (tr @ [ReadFile filepath], Inl (DenoError e))
      | Inr buf \<Rightarrow>
          (case json_parse lib (text_decode lib buf) of
             None \<Rightarrow> (tr @ [ReadFile filepath], Inl SyntaxError)
           | Some j \<Rightarrow> (tr @ [ReadFile filepath], Inr (Some j))))"

text \<open>The \<open>try\<close> block of the loop: fetch, create the directory, write, parse.\<close>

definition tryPublicFetch_try ::
  "'j lib \<Rightarrow> env \<Rightarrow> event list \<Rightarrow> string \<Rightarrow> bool \<Rightarrow> string \<Rightarrow> event list \<times> (exn + 'j option)" where
  "tryPublicFetch_try lib env tr url parse filepath =
     (case fetchSuccess env tr url of
        (tr1, Inl e) \<Rightarrow> (tr1, Inl e)
      | (tr1, Inr res) \<Rightarrow>
          (case arrayBuffer res of
             Inl e \<Rightarrow> (tr1, Inl e)
           | Inr buf \<Rightarrow>
               (let tr2 = tr1 @ [Console Warn [''fetched and cached url:'', url]] in
                case mkdir_result env tr2 (path_dirname lib filepath) of
                  Some e \<Rightarrow> (tr2, Inl (DenoError e))
                | None \<Rightarrow>
                    (let tr3 = tr2 @ [Mkdir (path_dirname lib filepath)] in
                     case writeFile_result env tr3 filepath buf of
                       Some e \<Rightarrow> (tr3, Inl (DenoError e))
                     | None \<Rightarrow>
                         (let tr4 = tr3 @ [WriteFile filepath buf] in
                          if parse
                          then (case json_parse lib (text_decode lib buf) of
                                  None \<Rightarrow> (tr4, Inl SyntaxError)
                                | Some j \<Rightarrow> (tr4, Inr (Some j)))
                          else (tr4, Inr None))))))"

text \<open>
  The \<open>while (true)\<close> loop with its \<open>catch\<close> block; \<open>i\<close> counts the retries. The result
  is \<open>None\<close> when the fuel is used up before the loop returns.
\<close>

fun tryPublicFetch_loop ::
  "nat \<Rightarrow> 'j lib \<Rightarrow> env \<Rightarrow> string \<Rightarrow> bool \<Rightarrow> string \<Rightarrow> string option \<Rightarrow> nat \<Rightarrow> event list
     \<Rightarrow> (event list \<times> (exn + 'j option)) option" where
  "tryPublicFetch_loop 0 lib env url parse filepath existing i tr = None"
| "tryPublicFetch_loop (Suc fuel) lib env url parse filepath existing i tr =
     (case tryPublicFetch_try lib env tr url parse filepath of
        (tr1, Inr r) \<Rightarrow> Some (tr1, Inr r)
      | (tr1, Inl err) \<Rightarrow>
          (if err = BadStatusCodeError 404
           then Some (tr1 @ [Console Warn [''url not found:'', url]], Inr None)
           else
             (let tr2 = tr1 @ [Console Err [''failed to cache '' @ url @ '':'', exn_text err]] in
              if truthy existing
              then (let tr3 = tr2 @ [Console Log [''reusing cached file'', the existing]] in
                    if parse then Some (readParsed lib env tr3 filepath)
                    else Some (tr3, Inr None))
              else tryPublicFetch_loop fuel lib env url parse filepath existing (Suc i)
                     (tr2 @ [Console Log [''retrying in '' @ show_nat (backoff i) @ ''ms''],
                             Sleep (backoff i)]))))"

text \<open>
  \<open>path.join(outdir, url.substring((url.startsWith(rootUrl) ? rootUrl : origin).length))\<close>.
\<close>

definition publicFilePath :: "config \<Rightarrow> 'j lib \<Rightarrow> string \<Rightarrow> string" where
  "publicFilePath cfg lib url =
     path_join lib (outdir cfg)
       (drop (length (if prefix rootUrl url then rootUrl else origin)) url)"

definition tryPublicFetchOrCached ::
  "config \<Rightarrow> 'j lib \<Rightarrow> env \<Rightarrow> nat \<Rightarrow> event list \<Rightarrow> string \<Rightarrow> bool
     \<Rightarrow> (event list \<times> (exn + 'j option)) option" where
  "tryPublicFetchOrCached cfg lib env fuel tr url parse =
     (if \<not> prefix origin url then Some (tr, Inl (Error (''bad url: '' @ url)))
      else
        (let filepath = publicFilePath cfg lib url
         in case lookupExisting cfg lib env tr filepath None None of
              (tr1, Inl e) \<Rightarrow> Some (tr1, Inl e)
            | (tr1, Inr existing) \<Rightarrow>
                (if truthy existing \<and> \<not> refresh cfg
                 then (let tr2 = tr1 @ [Console Log [''reusing cached file'', filepath]] in
                       if parse then Some (readParsed lib env tr2 filepath)
                       else Some (tr2, Inr None))
                 else tryPublicFetch_loop fuel lib env url parse filepath existing 0 tr1)))"

subsection \<open>String replacement and the regular expressions of the script\<close>

text \<open>
  The replacement text of \<open>String.prototype.replace\<close> and \<open>replaceAll\<close> with a string
  pattern: \<open>$$\<close> is a dollar sign, \<open>$&\<close> the matched text, \<open>$`\<close> the text before the match
  and \<open>$'\<close> the text after it; every other character stands for itself.
\<close>

fun expandReplacement :: "string \<Rightarrow> string \<Rightarrow> string \<Rightarrow> string \<Rightarrow> string" where
  "expandReplacement matched pre post [] = []"
| "expandReplacement matched pre post [c] = [c]"
| "expandReplacement matched pre post (c # d # r) =
     (if c = CHR ''$'' \<and> d = CHR ''$'' then CHR ''$'' # expandReplacement matched pre post r
      else if c = CHR ''$'' \<and> d = CHR ''&'' then matched @ expandReplacement matched pre post r
      else if c = CHR ''$'' \<and> d = CHR 0x60 then pre @ expandReplacement matched pre post r
      else if c = CHR ''$'' \<and> d = CHR 0x27 then post @ expandReplacement matched pre post r
      else c # expandReplacement matched pre post (d # r))"

text \<open>
  \<open>s.replaceAll(pat, rep)\<close> for strings \<open>pat\<close> and \<open>rep\<close>: the occurrences of \<open>pat\<close> are
  found from left to right without overlap. \<open>pre\<close> is the part of the string already
  passed. With an empty pattern the replacement is inserted at every position.
\<close>

fun replaceAllFrom :: "string \<Rightarrow> string \<Rightarrow> string \<Rightarrow> string \<Rightarrow> string" where
  "replaceAllFrom pat rep pre [] = (if pat = [] then expandReplacement [] pre [] rep else [])"
| "replaceAllFrom pat rep pre (c # cs) =
     (if pat = []
      then expandReplacement [] pre (c # cs) rep @ c # replaceAllFrom pat rep (pre @ [c]) cs
      else if prefix pat (c # cs)
      then expandReplacement pat pre (drop (length pat - 1) cs) rep
             @ replaceAllFrom pat rep (pre @ pat) (drop (length pat - 1) cs)
      else c # replaceAllFrom pat rep (pre @ [c]) cs)"

definition replaceAll :: "string \<Rightarrow> string \<Rightarrow> string \<Rightarrow> string" where
  "replaceAll pat rep s = replaceAllFrom pat rep [] s"

text \<open>\<open>s.replace(pat, rep)\<close> for a string pattern: only the first occurrence.\<close>

fun replaceFirstFrom :: "string \<Rightarrow> string \<Rightarrow> string \<Rightarrow> string \<Rightarrow> string" where
  "replaceFirstFrom pat rep pre [] = (if pat = [] then expandReplacement [] pre [] rep else [])"
| "replaceFirstFrom pat rep pre (c # cs) =
     (if prefix pat (c # cs)
      then expandReplacement pat pre (drop (length pat) (c # cs)) rep @ drop (length pat) (c # cs)
      else c # replaceFirstFrom pat rep (pre @ [c]) cs)"

definition replaceFirst :: "string \<Rightarrow> string \<Rightarrow> string \<Rightarrow> string" where
  "replaceFirst pat rep s = replaceFirstFrom pat rep [] s"

text \<open>The character classes \<open>\w\<close> and (negated) \<open>.\<close> of a regular expression.\<close>

definition is_word :: "char \<Rightarrow> bool" where
  "is_word c \<longleftrightarrow>
     (let n = (of_char c :: nat) in
      (97 \<le> n \<and> n \<le> 122) \<or> (65 \<le> n \<and> n \<le> 90) \<or> (48 \<le> n \<and> n \<le> 57) \<or> n = 95)"

definition line_terminator :: "char \<Rightarrow> bool" where
  "line_terminator c \<longleftrightarrow> c = CHR 0x0A \<or> c = CHR 0x0D"

text \<open>\<open>\w+\.\<close> at the head of a string: what follows the match.\<close>

definition wordDot :: "string \<Rightarrow> string option" where
  "wordDot s =
     (case dropWhile is_word s of
        [] \<Rightarrow> None
      | c # r \<Rightarrow> if takeWhile is_word s \<noteq> [] \<and> c = CHR ''.'' then Some r else None)"

text \<open>\<open>/-\w+\.\w+\.\w+\./\<close> at the head of a string: what follows the match.\<close>

definition hashMatch :: "string \<Rightarrow> string option" where
  "hashMatch s =
     (case s of
        [] \<Rightarrow> None
      | c # r \<Rightarrow>
          if c = CHR ''-''
          then (case wordDot r of
                  None \<Rightarrow> None
                | Some r1 \<Rightarrow> (case wordDot r1 of None \<Rightarrow> None | Some r2 \<Rightarrow> wordDot r2))
          else None)"

text \<open>\<open>s.replace(/-\w+\.\w+\.\w+\./, '.')\<close>: the leftmost match becomes a dot.\<close>

fun replaceHash :: "string \<Rightarrow> string" where
  "replaceHash [] = []"
| "replaceHash (c # cs) =
     (case hashMatch (c # cs) of
        Some r \<Rightarrow> CHR ''.'' # r
      | None \<Rightarrow> c # replaceHash cs)"

text \<open>
  \<open>s.replace(/@.*$/, '')\<close>: the string is cut at the leftmost \<open>@\<close> after which no line
  terminator follows.
\<close>

fun stripAt :: "string \<Rightarrow> string" where
  "stripAt [] = []"
| "stripAt (c # cs) =
     (if c = CHR ''@'' \<and> \<not> list_ex line_terminator cs then [] else c # stripAt cs)"

definition sanitizedBasename :: "'j lib \<Rightarrow> string \<Rightarrow> exn + string" where
  "sanitizedBasename lib url =
     (case url_pathname lib url of
        None \<Rightarrow> Inl (TypeError ''Invalid URL'')
      | Some pathname \<Rightarrow>
          Inr (stripAt (replaceHash (replaceFirst ''.min.'' ''.'' (path_basename lib pathname)))))"

text \<open>
  The expression \<open>/url\((?:"|')?((?!data:).+?)(?:"|')?\)/g\<close> of \<open>embedCssUrls\<close>.
  \<open>lazyCapture acc s\<close> is the rest of the match once the group has taken the characters
  \<open>acc\<close> (at least one): the group ends as soon as an optional quote and a closing
  parenthesis follow, and otherwise takes one more character that is not a line
  terminator. The result is the captured text and what follows the match.
\<close>

definition is_quote :: "char \<Rightarrow> bool" where
  "is_quote c \<longleftrightarrow> c = CHR 0x22 \<or> c = CHR 0x27"

fun lazyCapture :: "string \<Rightarrow> string \<Rightarrow> (string \<times> string) option" where
  "lazyCapture acc [] = None"
| "lazyCapture acc [c] = (if c = CHR '')'' then Some (acc, []) else None)"
| "lazyCapture acc (c # d # r) =
     (if is_quote c \<and> d = CHR '')'' then Some (acc, r)
      else if c = CHR '')'' then Some (acc, d # r)
      else if line_terminator c then None
      else lazyCapture (acc @ [c]) (d # r))"

text \<open>The group \<open>((?!data:).+?)\<close> and the rest of the expression, at the head of a string.\<close>

definition captureGroup :: "string \<Rightarrow> (string \<times> string) option" where
  "captureGroup s =
     (case s of
        [] \<Rightarrow> None
      | c # r \<Rightarrow>
          if prefix ''data:'' s \<or> line_terminator c then None else lazyCapture [c] r)"

text \<open>
  What follows \<open>url\(\<close>: the optional opening quote is taken first, and given back
  when the rest does not match with it.
\<close>

definition urlMatchBody :: "string \<Rightarrow> (string \<times> string) option" where
  "urlMatchBody r =
     (case (case r of
              [] \<Rightarrow> None
            | q # r' \<Rightarrow> if is_quote q then captureGroup r' else None) of
        Some m \<Rightarrow> Some m
      | None \<Rightarrow> captureGroup r)"

text \<open>The whole expression at the head of a string.\<close>

definition urlMatchAt :: "string \<Rightarrow> (string \<times> string) option" where
  "urlMatchAt s = (if prefix ''url('' s then urlMatchBody (drop 4 s) else None)"

lemma lazyCapture_shorter: "lazyCapture acc s = Some (cap, r) \<Longrightarrow> length r < length s"
  by (induction acc s rule: lazyCapture.induct) (auto split: if_splits)

lemma captureGroup_shorter: "captureGroup s = Some (cap, r) \<Longrightarrow> length r < length s"
  by (auto simp: captureGroup_def split: list.splits if_splits dest: lazyCapture_shorter)

lemma urlMatchBody_shorter: "urlMatchBody s = Some (cap, r) \<Longrightarrow> length r < length s"
  by (auto simp: urlMatchBody_def split: option.splits list.splits if_splits
      dest!: captureGroup_shorter)

lemma urlMatchAt_shorter:
  assumes "urlMatchAt s = Some (cap, r)"
  shows "length r < length s"
proof -
  from assms have "urlMatchBody (drop 4 s) = Some (cap, r)"
    by (simp add: urlMatchAt_def split: if_splits)
  then have "length r < length (drop 4 s)"
    by (rule urlMatchBody_shorter)
  then show ?thesis by simp
qed

text \<open>\<open>Array.from(s.matchAll(...), (m) => m[1])\<close>: the captures of all matches, in order.\<close>

function urlMatches :: "string \<Rightarrow> string list" where
  "urlMatches [] = []"
| "urlMatches (c # cs) =
     (case urlMatchAt (c # cs) of
        Some (cap, r) \<Rightarrow> cap # urlMatches r
      | None \<Rightarrow> urlMatches cs)"
  by pat_completeness auto
termination
  by (relation "measure length") (auto dest: urlMatchAt_shorter)

text \<open>\<open>Array.from(new Set(xs))\<close>: the first occurrence of each element, in order.\<close>

definition uniq :: "'a list \<Rightarrow> 'a list" where
  "uniq xs = rev (remdups (rev xs))"

subsection \<open>Content transforms\<close>

text \<open>
  The loop of \<open>embedCssUrls\<close> over the distinct references: a reference that starts with
  \<open>#\<close> is skipped; the others are resolved (against the stylesheet's URL unless they
  start with \<open>http\<close>), fetched, and every occurrence of the text \<open>url(reference)\<close> in \<open>s\<close>
  is replaced by the data URI. A missing \<open>content-type\<close> header is \<open>null\<close> in the template.
\<close>

fun embedLoop ::
  "'j lib \<Rightarrow> env \<Rightarrow> string \<Rightarrow> string list \<Rightarrow> event list \<Rightarrow> string \<Rightarrow> event list \<times> (exn + string)" where
  "embedLoop lib env url [] tr s = (tr, Inr s)"
| "embedLoop lib env url (resourceUrl # rest) tr s =
     (if prefix ''#'' resourceUrl then embedLoop lib env url rest tr s
      else
        (case (if prefix ''http'' resourceUrl then Some resourceUrl
               else url_resolve lib resourceUrl url) of
           None \<Rightarrow> (tr, Inl (TypeError ''Invalid URL''))
         | Some normalizedUrl \<Rightarrow>
             (case fetchSuccess env tr normalizedUrl of
                (tr1, Inl e) \<Rightarrow> (tr1, Inl e)
              | (tr1, Inr res) \<Rightarrow>
                  (let mimeType = res_contentType res;
                       tr2 = (if \<not> truthy mimeType
                              then tr1 @ [Console Log
                                     [''warning: no content-type header for '' @ normalizedUrl]]
                              else tr1)
                   in case arrayBuffer res of
                        Inl e \<Rightarrow> (tr2, Inl e)
                      | Inr buf \<Rightarrow>
                          embedLoop lib env url rest tr2
                            (replaceAll (''url('' @ resourceUrl @ '')'')
                               (''url(data:''
                                  @ (case mimeType of None \<Rightarrow> ''null'' | Some m \<Rightarrow> m)
                                  @ '';base64,'' @ b64_encode lib buf @ '')'')
                               s)))))"

definition embedCssUrls ::
  "'j lib \<Rightarrow> env \<Rightarrow> event list \<Rightarrow> string \<Rightarrow> bytes \<Rightarrow> event list \<times> (exn + bytes)" where
  "embedCssUrls lib env tr url contents =
     (let s = text_decode lib contents;
          resourceUrls = uniq (urlMatches s)
      in case embedLoop lib env url resourceUrls tr s of
           (tr1, Inl e) \<Rightarrow> (tr1, Inl e)
         | (tr1, Inr s1) \<Rightarrow> (tr1, Inr (text_encode lib s1)))"

definition replaceJsPapunikaUrls :: "'j lib \<Rightarrow> string \<Rightarrow> bytes \<Rightarrow> bytes" where
  "replaceJsPapunikaUrls lib url contents =
     text_encode lib
       (replaceAll ([CHR 0x22] @ origin @ ''/'') (''worldPath+'' @ [CHR 0x22])
          (text_decode lib contents))"

subsection \<open>Resource Cache Writer: cacheResourceFile\<close>

text \<open>The optional \<open>mutate\<close> argument: a transform that may have effects and may throw.\<close>

type_synonym mutator = "event list \<Rightarrow> string \<Rightarrow> bytes \<Rightarrow> event list \<times> (exn + bytes)"

definition applyMutate :: "mutator option \<Rightarrow> event list \<Rightarrow> string \<Rightarrow> bytes \<Rightarrow> event list \<times> (exn + bytes)" where
  "applyMutate mutate tr url contents =
     (case mutate of None \<Rightarrow> (tr, Inr contents) | Some m \<Rightarrow> m tr url contents)"


text \<open>
  \<open>filename + '-' + createHash('md5').update(contents).toString('hex') + extname\<close>.
\<close>

definition fingerprintedName :: "'j lib \<Rightarrow> string \<Rightarrow> string \<Rightarrow> bytes \<Rightarrow> string" where
  "fingerprintedName lib filename extname contents =
     filename @ ''-'' @ md5_hex lib contents @ extname"

text \<open>
  The \<open>try\<close> block of the loop: fetch, transform, fingerprint the transformed bytes,
  create the directory, write the file under the fingerprinted name, return its path.
\<close>

definition cacheResourceFile_try ::
  "'j lib \<Rightarrow> env \<Rightarrow> event list \<Rightarrow> string \<Rightarrow> string \<Rightarrow> mutator option \<Rightarrow> string \<Rightarrow> string \<Rightarrow> string
     \<Rightarrow> event list \<times> (exn + string)" where
  "cacheResourceFile_try lib env tr url pfx mutate filename extname writedir =
     (case fetchSuccess env tr url of
        (tr1, Inl e) \<Rightarrow> (tr1, Inl e)
      | (tr1, Inr res) \<Rightarrow>
          (case arrayBuffer res of
             Inl e \<Rightarrow> (tr1, Inl e)
           | Inr fetched \<Rightarrow>
               (case applyMutate mutate tr1 url fetched of
                  (tr2, Inl e) \<Rightarrow> (tr2, Inl e)
                | (tr2, Inr contents) \<Rightarrow>
                    (let tr3 = tr2 @ [Console Log [''caching resource'', url]];
                         filenameWithHash = fingerprintedName lib filename extname contents;
                         writepath = path_join lib writedir filenameWithHash
                     in case mkdir_result env tr3 (path_dirname lib writepath) of
                          Some e \<Rightarrow> (tr3, Inl (DenoError e))
                        | None \<Rightarrow>
                            (let tr4 = tr3 @ [Mkdir (path_dirname lib writepath)] in
                             case writeFile_result env tr4 writepath contents of
                               Some e \<Rightarrow> (tr4, Inl (DenoError e))
                             | None \<Rightarrow>
                                 (tr4 @ [WriteFile writepath contents],
                                  Inr (path_join lib pfx filenameWithHash)))))))"

text \<open>The \<open>while (true)\<close> loop with its \<open>catch\<close> block; \<open>i\<close> counts the retries.\<close>

fun cacheResourceFile_loop ::
  "nat \<Rightarrow> 'j lib \<Rightarrow> env \<Rightarrow> string \<Rightarrow> string \<Rightarrow> mutator option \<Rightarrow> string \<Rightarrow> string \<Rightarrow> string
     \<Rightarrow> string option \<Rightarrow> nat \<Rightarrow> event list \<Rightarrow> (event list \<times> (exn + string)) option" where
  "cacheResourceFile_loop 0 lib env url pfx mutate filename extname writedir existing i tr = None"
| "cacheResourceFile_loop (Suc fuel) lib env url pfx mutate filename extname writedir existing i tr =
     (case cacheResourceFile_try lib env tr url pfx mutate filename extname writedir of
        (tr1, Inr served) \<Rightarrow> Some (tr1, Inr served)
      | (tr1, Inl err) \<Rightarrow>
          (let tr2 = tr1 @ [Console Err [''failed to cache '' @ url @ '':'', exn_text err]] in
           if truthy existing
           then (let reusepath = path_join lib pfx (the existing) in
                 Some (tr2 @ [Console Log [''reusing cached resource'', reusepath]], Inr reusepath))
           else cacheResourceFile_loop fuel lib env url pfx mutate filename extname writedir
                  existing (Suc i)
                  (tr2 @ [Console Log [''retrying in '' @ show_nat (backoff i) @ ''ms''],
                          Sleep (backoff i)])))"

definition cacheResourceFile ::
  "config \<Rightarrow> 'j lib \<Rightarrow> env \<Rightarrow> nat \<Rightarrow> event list \<Rightarrow> string \<Rightarrow> string \<Rightarrow> mutator option
     \<Rightarrow> (event list \<times> (exn + string)) option" where
  "cacheResourceFile cfg lib env fuel tr url pfx mutate =
     (case sanitizedBasename lib url of
        Inl e \<Rightarrow> Some (tr, Inl e)
      | Inr sanitized \<Rightarrow>
          (let extname = path_extname lib sanitized;
               filename = path_basename_ext lib sanitized extname;
               writedir = path_join lib (outdir cfg) pfx
           in case lookupExisting cfg lib env tr writedir (Some filename) (Some extname) of
                (tr1, Inl e) \<Rightarrow> Some (tr1, Inl e)
              | (tr1, Inr existing) \<Rightarrow>
                  (if truthy existing \<and> \<not> refresh cfg
                   then (let reusepath = path_join lib pfx (the existing) in
                         Some (tr1 @ [Console Log [''reusing cached resource'', reusepath]],
                               Inr reusepath))
                   else cacheResourceFile_loop fuel lib env url pfx mutate filename extname
                          writedir existing 0 tr1)))"

subsection \<open>The root document: fetchRootPage\<close>

fun fetchRootPage_loop ::
  "nat \<Rightarrow> 'j lib \<Rightarrow> env \<Rightarrow> nat \<Rightarrow> event list \<Rightarrow> (event list \<times> (exn + string)) option" where
  "fetchRootPage_loop 0 lib env i tr = None"
| "fetchRootPage_loop (Suc fuel) lib env i tr =
     (case (case fetchSuccess env tr rootUrl of
              (tr1, Inl e) \<Rightarrow> (tr1, Inl e)
            | (tr1, Inr res) \<Rightarrow>
                (case arrayBuffer res of
                   Inl e \<Rightarrow> (tr1, Inl e)
                 | Inr buf \<Rightarrow> (tr1, Inr (text_decode lib buf)))) of
        (tr1, Inr text) \<Rightarrow> Some (tr1, Inr text)
      | (tr1, Inl err) \<Rightarrow>
          fetchRootPage_loop fuel lib env (Suc i)
            (tr1 @ [Console Err [''failed to fetch root page:'', exn_text err],
                    Console Log [''retrying in '' @ show_nat (backoff i) @ ''ms''],
                    Sleep (backoff i)]))"

definition fetchRootPage :: "'j lib \<Rightarrow> env \<Rightarrow> nat \<Rightarrow> event list \<Rightarrow> (event list \<times> (exn + string)) option" where
  "fetchRootPage lib env fuel tr = fetchRootPage_loop fuel lib env 0 tr"

subsection \<open>Bulk Resource Enumerator\<close>

text \<open>
  The phases of the script after the root document. Each phase builds an array of calls
  \<open>tryPublicFetchOrCached(u)\<close> and awaits them together; the model gives the URLs \<open>u\<close>
  of the calls a phase makes, in the order of the array. The zone and marker records are
  the fields the script reads from the parsed JSON; an \<open>id\<close> or \<open>rapportId\<close> is kept as the
  text it has in a template literal.
\<close>

record zone =
  zone_id :: string
  markerType :: int

record entry =
  popupMedia :: "string option"
  rapportId :: "string option"

record marker =
  data :: "entry list"



text \<open>\<open>if (shouldDownloadAssets) { ... assets.map(...) }\<close>.\<close>

definition assetCalls :: "config \<Rightarrow> string list" where
  "assetCalls cfg =
     (if shouldDownloadAssets cfg then map (\<lambda>asset. rootUrl @ ''/assets/'' @ asset @ ''.png'') assets
      else [])"

text \<open>The zone documents requested first, with \<open>parse\<close> set.\<close>

definition zoneDocCalls :: "zone list \<Rightarrow> string list" where
  "zoneDocCalls zones =
     (rootUrl @ ''/data/zones/us/00000.json'')
       # map (\<lambda>z. rootUrl @ ''/data/zones/us/'' @ zone_id z @ ''.json'') zones"








subsection \<open>A concrete library for the evaluated examples\<close>

text \<open>
  The examples below are evaluated with the following instance of the library interface.
  The digest is MD5 (RFC 1321) and the encoder is base64 (RFC 4648), as in the script.
  The path functions follow the POSIX variant of the standard path module; the URL
  functions cover absolute URLs \<open>scheme://host/path?query#fragment\<close> and path, query and
  fragment references relative to them, without percent-encoding; text is ASCII, and a
  parsed JSON document is kept as its text.
\<close>

definition md5_K :: "32 word list" where
  "md5_K =
     [0xd76aa478, 0xe8c7b756, 0x242070db, 0xc1bdceee,
      0xf57c0faf, 0x4787c62a, 0xa8304613, 0xfd469501,
      0x698098d8, 0x8b44f7af, 0xffff5bb1, 0x895cd7be,
      0x6b901122, 0xfd987193, 0xa679438e, 0x49b40821,
      0xf61e2562, 0xc040b340, 0x265e5a51, 0xe9b6c7aa,
      0xd62f105d, 0x02441453, 0xd8a1e681, 0xe7d3fbc8,
      0x21e1cde6, 0xc33707d6, 0xf4d50d87, 0x455a14ed,
      0xa9e3e905, 0xfcefa3f8, 0x676f02d9, 0x8d2a4c8a,
      0xfffa3942, 0x8771f681, 0x6d9d6122, 0xfde5380c,
      0xa4beea44, 0x4bdecfa9, 0xf6bb4b60, 0xbebfbc70,
      0x289b7ec6, 0xeaa127fa, 0xd4ef3085, 0x04881d05,
      0xd9d4d039, 0xe6db99e5, 0x1fa27cf8, 0xc4ac5665,
      0xf4292244, 0x432aff97, 0xab9423a7, 0xfc93a039,
      0x655b59c3, 0x8f0ccc92, 0xffeff47d, 0x85845dd1,
      0x6fa87e4f, 0xfe2ce6e0, 0xa3014314, 0x4e0811a1,
      0xf7537e82, 0xbd3af235, 0x2ad7d2bb, 0xeb86d391]"

definition md5_shift :: "nat list" where
  "md5_shift =
     [7, 12, 17, 22, 7, 12, 17, 22, 7, 12, 17, 22, 7, 12, 17, 22,
      5, 9, 14, 20, 5, 9, 14, 20, 5, 9, 14, 20, 5, 9, 14, 20,
      4, 11, 16, 23, 4, 11, 16, 23, 4, 11, 16, 23, 4, 11, 16, 23,
      6, 10, 15, 21, 6, 10, 15, 21, 6, 10, 15, 21, 6, 10, 15, 21]"

type_synonym md5_state = "32 word \<times> 32 word \<times> 32 word \<times> 32 word"

definition md5_f :: "nat \<Rightarrow> 32 word \<Rightarrow> 32 word \<Rightarrow> 32 word \<Rightarrow> 32 word" where
  "md5_f i b c d =
     (if i < 16 then (b AND c) OR (NOT b AND d)
      else if i < 32 then (d AND b) OR (NOT d AND c)
      else if i < 48 then b XOR c XOR d
      else c XOR (b OR NOT d))"

definition md5_g :: "nat \<Rightarrow> nat" where
  "md5_g i =
     (if i < 16 then i
      else if i < 32 then (5 * i + 1) mod 16
      else if i < 48 then (3 * i + 5) mod 16
      else (7 * i) mod 16)"

fun md5_step :: "32 word list \<Rightarrow> md5_state \<Rightarrow> nat \<Rightarrow> md5_state" where
  "md5_step m (a, b, c, d) i =
     (d, b + word_rotl (md5_shift ! i) (md5_f i b c d + a + md5_K ! i + m ! md5_g i), b, c)"

definition le_word :: "bytes \<Rightarrow> 32 word" where
  "le_word bs = foldr (\<lambda>c w. of_nat (of_char c) + push_bit 8 w) bs 0"

fun chunks :: "nat \<Rightarrow> nat \<Rightarrow> 'a list \<Rightarrow> 'a list list" where
  "chunks 0 k xs = []"
| "chunks (Suc n) k xs = take k xs # chunks n k (drop k xs)"

fun md5_add :: "md5_state \<Rightarrow> md5_state \<Rightarrow> md5_state" where
  "md5_add (a0, b0, c0, d0) (a, b, c, d) = (a0 + a, b0 + b, c0 + c, d0 + d)"

definition md5_block :: "md5_state \<Rightarrow> bytes \<Rightarrow> md5_state" where
  "md5_block st block =
     md5_add st (foldl (md5_step (map le_word (chunks 16 4 block))) st [0 ..< 64])"

definition byte_at :: "'a::len word \<Rightarrow> nat \<Rightarrow> char" where
  "byte_at w i = char_of (unat (take_bit 8 (drop_bit (8 * i) w)))"

definition le_bytes :: "nat \<Rightarrow> 'a::len word \<Rightarrow> bytes" where
  "le_bytes k w = map (byte_at w) [0 ..< k]"

definition md5_pad :: "bytes \<Rightarrow> bytes" where
  "md5_pad msg =
     msg @ [CHR 0x80] @ replicate ((119 - length msg mod 64) mod 64) (CHR 0x00)
       @ le_bytes 8 (8 * of_nat (length msg) :: 64 word)"

definition md5_digest :: "bytes \<Rightarrow> md5_state" where
  "md5_digest msg =
     foldl md5_block (0x67452301, 0xefcdab89, 0x98badcfe, 0x10325476)
       (chunks (length (md5_pad msg) div 64) 64 (md5_pad msg))"

definition hex_byte :: "char \<Rightarrow> string" where
  "hex_byte c =
     [''0123456789abcdef'' ! (of_char c div 16), ''0123456789abcdef'' ! (of_char c mod 16)]"

definition hex_word :: "32 word \<Rightarrow> string" where
  "hex_word w = concat (map hex_byte (le_bytes 4 w))"

fun md5_hexstate :: "md5_state \<Rightarrow> string" where
  "md5_hexstate (a, b, c, d) = hex_word a @ hex_word b @ hex_word c @ hex_word d"

definition md5 :: "bytes \<Rightarrow> string" where
  "md5 msg = md5_hexstate (md5_digest msg)"

definition b64_char :: "nat \<Rightarrow> char" where
  "b64_char n = ''ABCDEFGHIJKLMNOPQRSTUVWXYZabcdefghijklmnopqrstuvwxyz0123456789+/'' ! n"

fun base64 :: "bytes \<Rightarrow> string" where
  "base64 [] = []"
| "base64 [a] =
     (let x = (of_char a :: nat) in [b64_char (x div 4), b64_char ((x mod 4) * 16)] @ ''=='')"
| "base64 [a, b] =
     (let x = (of_char a :: nat); y = (of_char b :: nat) in
      [b64_char (x div 4), b64_char ((x mod 4) * 16 + y div 16), b64_char ((y mod 16) * 4)]
        @ ''='')"
| "base64 (a # b # c # r) =
     (let x = (of_char a :: nat); y = (of_char b :: nat); z = (of_char c :: nat) in
      [b64_char (x div 4), b64_char ((x mod 4) * 16 + y div 16),
       b64_char ((y mod 16) * 4 + z div 64), b64_char (z mod 64)] @ base64 r)"

definition is_slash :: "char \<Rightarrow> bool" where
  "is_slash c \<longleftrightarrow> c = CHR ''/''"

definition stripTrailingSlashes :: "string \<Rightarrow> string" where
  "stripTrailingSlashes p = rev (dropWhile is_slash (rev p))"

definition posix_basename :: "string \<Rightarrow> string" where
  "posix_basename p = rev (takeWhile (\<lambda>c. \<not> is_slash c) (dropWhile is_slash (rev p)))"

definition posix_basename_ext :: "string \<Rightarrow> string \<Rightarrow> string" where
  "posix_basename_ext p e =
     (let b = posix_basename p in
      if e = [] \<or> length p < length e then b
      else if e = p then []
      else if suffix e b \<and> b \<noteq> e then take (length b - length e) b
      else b)"

definition posix_extname :: "string \<Rightarrow> string" where
  "posix_extname p =
     (let b = posix_basename p;
          e = rev (takeWhile (\<lambda>c. c \<noteq> CHR ''.'') (rev b))
      in if CHR ''.'' \<notin> set b \<or> Suc (length e) = length b \<or> b = ''..'' then []
         else CHR ''.'' # e)"

definition posix_dirname :: "string \<Rightarrow> string" where
  "posix_dirname p =
     (let q = stripTrailingSlashes p;
          d = rev (drop 1 (dropWhile (\<lambda>c. \<not> is_slash c) (rev q)))
      in if CHR ''/'' \<notin> set (drop 1 q) then (if prefix ''/'' p then ''/'' else ''.'')
         else d)"

text \<open>The segments of a path between slashes.\<close>

fun segmentsFrom :: "string \<Rightarrow> string \<Rightarrow> string list" where
  "segmentsFrom acc [] = [acc]"
| "segmentsFrom acc (c # cs) =
     (if is_slash c then acc # segmentsFrom [] cs else segmentsFrom (acc @ [c]) cs)"

text \<open>
  Normalisation of the segments: empty and \<open>.\<close> segments are dropped and \<open>..\<close> removes
  the segment before it (above the start it is kept in a relative path and dropped in an
  absolute one). \<open>stack\<close> is the normalised path so far, last segment first.
\<close>

fun normalizeSegments :: "bool \<Rightarrow> string list \<Rightarrow> string list \<Rightarrow> string list" where
  "normalizeSegments absolute stack [] = rev stack"
| "normalizeSegments absolute stack (seg # segs) =
     (if seg = [] \<or> seg = ''.'' then normalizeSegments absolute stack segs
      else if seg = ''..''
      then (case stack of
              [] \<Rightarrow> normalizeSegments absolute (if absolute then [] else [seg]) segs
            | seg1 # below \<Rightarrow>
                if seg1 = ''..'' then normalizeSegments absolute (seg # stack) segs
                else normalizeSegments absolute below segs)
      else normalizeSegments absolute (seg # stack) segs)"

fun joinWith :: "string \<Rightarrow> string list \<Rightarrow> string" where
  "joinWith sep [] = []"
| "joinWith sep [x] = x"
| "joinWith sep (x # y # r) = x @ sep @ joinWith sep (y # r)"

definition posix_normalize :: "string \<Rightarrow> string" where
  "posix_normalize p =
     (if p = [] then ''.''
      else
        (let absolute = prefix ''/'' p;
             body = joinWith ''/'' (normalizeSegments absolute [] (segmentsFrom [] p));
             body1 = (if body = [] \<and> \<not> absolute then ''.'' else body);
             body2 = (if body1 \<noteq> [] \<and> suffix ''/'' p then body1 @ ''/'' else body1)
         in if absolute then ''/'' @ body2 else body2))"

definition posix_join :: "string \<Rightarrow> string \<Rightarrow> string" where
  "posix_join a b =
     (if a = [] \<and> b = [] then ''.''
      else if a = [] then posix_normalize b
      else if b = [] then posix_normalize a
      else posix_normalize (a @ ''/'' @ b))"

text \<open>The part of an absolute URL after \<open>scheme://\<close>, if it has one.\<close>

fun afterScheme :: "string \<Rightarrow> string option" where
  "afterScheme [] = None"
| "afterScheme (c # cs) = (if prefix ''://'' (c # cs) then Some (drop 2 cs) else afterScheme cs)"

definition is_pathEnd :: "char \<Rightarrow> bool" where
  "is_pathEnd c \<longleftrightarrow> c = CHR ''?'' \<or> c = CHR ''#''"

definition is_hostEnd :: "char \<Rightarrow> bool" where
  "is_hostEnd c \<longleftrightarrow> c = CHR ''/'' \<or> c = CHR ''?'' \<or> c = CHR ''#''"

definition simple_pathname :: "string \<Rightarrow> string option" where
  "simple_pathname url =
     (case afterScheme url of
        None \<Rightarrow> None
      | Some r \<Rightarrow>
          (let p = takeWhile (\<lambda>c. \<not> is_pathEnd c) (dropWhile (\<lambda>c. \<not> is_hostEnd c) r)
           in Some (if p = [] then ''/'' else p)))"

text \<open>
  Dot segments of a URL path: \<open>.\<close> is dropped and \<open>..\<close> removes the segment before it; a
  path that ends in one of them ends in a slash. \<open>stack\<close> is the path so far, last segment
  first.
\<close>

fun dotSegments :: "string list \<Rightarrow> string list \<Rightarrow> string list" where
  "dotSegments stack [] = rev stack"
| "dotSegments stack [seg] =
     (if seg = ''.'' then rev ([] # stack)
      else if seg = ''..'' then rev ([] # drop 1 stack)
      else rev (seg # stack))"
| "dotSegments stack (seg # next # segs) =
     (if seg = ''.'' then dotSegments stack (next # segs)
      else if seg = ''..'' then dotSegments (drop 1 stack) (next # segs)
      else dotSegments (seg # stack) (next # segs))"

definition urlPath :: "string \<Rightarrow> string" where
  "urlPath p = ''/'' @ joinWith ''/'' (dotSegments [] (segmentsFrom [] (drop 1 p)))"

text \<open>
  \<open>new URL(rel, base).href\<close> for an absolute \<open>base\<close>: an absolute \<open>rel\<close> stands for itself,
  a query or fragment is put after the base path, a path that starts with a slash
  replaces the base path, and any other path replaces its last segment.
\<close>

definition simple_resolve :: "string \<Rightarrow> string \<Rightarrow> string option" where
  "simple_resolve rel base =
     (case afterScheme base of
        None \<Rightarrow> None
      | Some r \<Rightarrow>
          (let site = take (length base - length (dropWhile (\<lambda>c. \<not> is_hostEnd c) r)) base;
               basePath = takeWhile (\<lambda>c. \<not> is_pathEnd c) (drop (length site) base);
               folder = rev (dropWhile (\<lambda>c. \<not> is_slash c) (rev basePath));
               relPath = takeWhile (\<lambda>c. \<not> is_pathEnd c) rel;
               relRest = dropWhile (\<lambda>c. \<not> is_pathEnd c) rel
           in if afterScheme rel \<noteq> None then Some rel
              else if relPath = [] then Some (site @ (if basePath = [] then ''/'' else basePath) @ relRest)
              else if prefix ''/'' relPath then Some (site @ urlPath relPath @ relRest)
              else Some (site @ urlPath ((if folder = [] then ''/'' else folder) @ relPath) @ relRest)))"

text \<open>\<open>new TextDecoder().decode(bytes)\<close> on ASCII text: a leading byte order mark is dropped.\<close>

definition asciiDecode :: "bytes \<Rightarrow> string" where
  "asciiDecode b = (if prefix [CHR 0xEF, CHR 0xBB, CHR 0xBF] b then drop 3 b else b)"

definition stdlib :: "string lib" where
  "stdlib =
     \<lparr> path_join = posix_join,
       path_basename = posix_basename,
       path_basename_ext = posix_basename_ext,
       path_dirname = posix_dirname,
       path_extname = posix_extname,
       url_pathname = simple_pathname,
       url_resolve = simple_resolve,
       text_decode = asciiDecode,
       text_encode = (\<lambda>s. s),
       md5_hex = md5,
       b64_encode = base64,
       json_parse = Some \<rparr>"

subsection \<open>Example configurations and environments\<close>

definition defaultConfig :: config where
  "defaultConfig = configOfArgs [] True"

definition refreshConfig :: config where
  "refreshConfig = configOfArgs [''--refresh''] True"

definition okResponse :: "string \<Rightarrow> bytes \<Rightarrow> response" where
  "okResponse mimeType contents =
     \<lparr> res_status = 200, res_contentType = Some mimeType, res_body = Some contents \<rparr>"

definition statusResponse :: "nat \<Rightarrow> response" where
  "statusResponse st = \<lparr> res_status = st, res_contentType = None, res_body = Some [] \<rparr>"

text \<open>
  An environment given by its network (which may look at the requests made so far) and
  by its directory listings; files cannot be read back, and creating directories and
  writing files succeeds.
\<close>

definition exampleEnv ::
  "(string list \<Rightarrow> string \<Rightarrow> response option) \<Rightarrow> (string \<Rightarrow> string list \<times> string option) \<Rightarrow> env" where
  "exampleEnv net dirs =
     \<lparr> fetch_result = (\<lambda>tr url. net (fetches tr) url),
       readDir_result = (\<lambda>tr dir. dirs dir),
       readFile_result = (\<lambda>tr path. Inl ''NotFound''),
       mkdir_result = (\<lambda>tr dir. None),
       writeFile_result = (\<lambda>tr path contents. None) \<rparr>"

text \<open>An output directory that does not exist yet, and an upstream that answers nothing.\<close>

definition noDirs :: "string \<Rightarrow> string list \<times> string option" where
  "noDirs dir = ([], Some ''NotFound'')"

definition offline :: "string list \<Rightarrow> string \<Rightarrow> response option" where
  "offline requested url = None"

text \<open>Two output directories for the lookups of the Cache Index.\<close>

definition fooDisk :: "string \<Rightarrow> string list \<times> string option" where
  "fooDisk dir =
     (if dir = ''mirror/static/css'' then ([''foo-0123456789abcdef0123456789abcdef.css''], None)
      else ([], Some ''NotFound''))"

definition jqueryDisk :: "string \<Rightarrow> string list \<times> string option" where
  "jqueryDisk dir =
     (if dir = ''mirror/static/js'' then ([''jquery-0123456789abcdef0123456789abcdef.min''], None)
      else ([], Some ''NotFound''))"

text \<open>
  A stylesheet and an asset of the site, an upstream that serves them (and answers 404
  to anything else), one that answers 404 to the first request only, one that answers
  500 to everything, the output directory a completed run leaves behind, and one
  whose enumeration fails.
\<close>

definition cssUrl :: string where
  "cssUrl = ''https://papunika.com/map/css/style.css''"

definition bossUrl :: string where
  "bossUrl = ''https://papunika.com/map/assets/boss.png''"

definition ghostUrl :: string where
  "ghostUrl = ''https://papunika.com/map/assets/ghost.png''"

definition upstream :: "string list \<Rightarrow> string \<Rightarrow> response option" where
  "upstream requested url =
     (if url = ''https://papunika.com/map'' then Some (okResponse ''text/html'' ''<html></html>'')
      else if url = cssUrl then Some (okResponse ''text/css'' ''body{}'')
      else if url = bossUrl then Some (okResponse ''image/png'' ''PNG'')
      else if url = ''https://papunika.com/map/css/foo.png'' then Some (okResponse ''image/png'' ''PNG'')
      else Some (statusResponse 404))"

definition notFoundOnce :: "string list \<Rightarrow> string \<Rightarrow> response option" where
  "notFoundOnce requested url =
     (if requested = [] then Some (statusResponse 404) else upstream requested url)"

definition serverDown :: "string list \<Rightarrow> string \<Rightarrow> response option" where
  "serverDown requested url = Some (statusResponse 500)"

definition mirrorDisk :: "string \<Rightarrow> string list \<times> string option" where
  "mirrorDisk dir =
     (if dir = ''mirror/static/css'' then ([''style-aa676972bbd2b68e94ef8e91e81d20be.css''], None)
      else if dir = ''mirror/static'' then ([''css'', ''js''], None)
      else if dir = ''mirror/assets'' then ([''boss.png''], None)
      else ([], Some ''NotFound''))"

definition brokenDisk :: "string \<Rightarrow> string list \<times> string option" where
  "brokenDisk dir = ([], Some ''Error'')"

text \<open>Stylesheets whose reference is written in double quotes.\<close>

definition quotedCss :: string where
  "quotedCss = ''a{background:url('' @ [CHR 0x22] @ ''foo.png'' @ [CHR 0x22] @ '')}''"

definition quotedDataCss :: string where
  "quotedDataCss = ''a{background:url('' @ [CHR 0x22] @ ''data:image/png;base64,UE5H'' @ [CHR 0x22] @ '')}''"




section \<open>Properties\<close>

subsection \<open>Tile enumeration\<close>

lemma length_concat_const:
  "(\<And>x. x \<in> set xss \<Longrightarrow> length x = k) \<Longrightarrow> length (concat xss) = length xss * k"
  by (induction xss) auto

lemma downloadTiles_length: "length (downloadTiles url maxZoom) = (\<Sum>z<maxZoom. 4 ^ z)"
proof -
  have level: "length (concat (map (\<lambda>x. map (\<lambda>y. url z x y) [0 ..< 2 ^ z]) [0 ..< 2 ^ z])) = 4 ^ z"
    for z :: nat
  proof -
    have "length (concat (map (\<lambda>x. map (\<lambda>y. url z x y) [0 ..< 2 ^ z]) [0 ..< 2 ^ z]))
        = length (map (\<lambda>x. map (\<lambda>y. url z x y) [0 ..< 2 ^ z]) [0 ..< 2 ^ z]) * 2 ^ z"
      by (rule length_concat_const) auto
    also have "\<dots> = 2 ^ z * 2 ^ z" by simp
    also have "\<dots> = (4::nat) ^ z"
      by (metis power_mult_distrib mult_2 numeral_Bit0)
    finally show ?thesis .
  qed
  have "concat (concat (map (\<lambda>zoom. map (\<lambda>x. map (\<lambda>y. url zoom x y) [0 ..< 2 ^ zoom]) [0 ..< 2 ^ zoom]) [0 ..< n]))
      = concat (map (\<lambda>zoom. concat (map (\<lambda>x. map (\<lambda>y. url zoom x y) [0 ..< 2 ^ zoom]) [0 ..< 2 ^ zoom])) [0 ..< n])"
    for n
    by (induction n) auto
  then have "length (downloadTiles url maxZoom)
      = sum_list (map (\<lambda>zoom. length (concat (map (\<lambda>x. map (\<lambda>y. url zoom x y) [0 ..< 2 ^ zoom]) [0 ..< 2 ^ zoom]))) [0 ..< maxZoom])"
    by (simp add: downloadTiles_def length_concat comp_def)
  also have "\<dots> = sum_list (map (\<lambda>zoom. 4 ^ zoom) [0 ..< maxZoom])"
    by (simp only: level)
  also have "\<dots> = (\<Sum>z<maxZoom. 4 ^ z)"
    by (simp add: interv_sum_list_conv_sum_set_nat atLeast0LessThan)
  finally show ?thesis .
qed

lemma downloadTiles_set:
  "set (downloadTiles url maxZoom) = {url z x y | z x y. z < maxZoom \<and> x < 2 ^ z \<and> y < 2 ^ z}"
proof (intro set_eqI iffI)
  fix u
  assume "u \<in> set (downloadTiles url maxZoom)"
  then obtain z x y where "z < maxZoom" "x < 2 ^ z" "y < 2 ^ z" "u = url z x y"
    by (auto simp: downloadTiles_def)
  then show "u \<in> {url z x y | z x y. z < maxZoom \<and> x < 2 ^ z \<and> y < 2 ^ z}"
    by blast
next
  fix u
  assume "u \<in> {url z x y | z x y. z < maxZoom \<and> x < 2 ^ z \<and> y < 2 ^ z}"
  then obtain z x y where zxy: "z < maxZoom" "x < 2 ^ z" "y < 2 ^ z" and u: "u = url z x y"
    by blast
  have "\<exists>z'\<in>{0..<maxZoom}. \<exists>x'\<in>{0..<2 ^ z'}. url z x y \<in> url z' x' ` {0..<2 ^ z'}"
    using zxy by (intro bexI [of _ z] bexI [of _ x] imageI) auto
  then show "u \<in> set (downloadTiles url maxZoom)"
    unfolding u by (simp add: downloadTiles_def)
qed

text \<open>
  C5. \<open>downloadTiles(url, maxZoom)\<close> enumerates, for each zoom level \<open>z\<close> from 0 (the
  levels enumerated are \<open>0, ..., maxZoom - 1\<close>), the whole \<open>2^z\<close> by \<open>2^z\<close> grid: the number
  of tile URLs is the sum of \<open>4^z\<close> over these levels, for \<open>maxZoom = 2\<close> exactly 5 URLs
  are generated (one at zoom 0, four at zoom 1), and the generated URLs are exactly the
  values \<open>url z x y\<close> with \<open>x < 2^z\<close> and \<open>y < 2^z\<close>.
\<close>

theorem downloadTiles_enumeration:
  "length (downloadTiles url maxZoom) = (\<Sum>z<maxZoom. 4 ^ z)
   \<and> set (downloadTiles url maxZoom) = {url z x y | z x y. z < maxZoom \<and> x < 2 ^ z \<and> y < 2 ^ z}
   \<and> downloadTiles url 2 = [url 0 0 0, url 1 0 0, url 1 0 1, url 1 1 0, url 1 1 1]
   \<and> length (downloadTiles url 2) = 5"
proof -
  have two: "downloadTiles url 2 = [url 0 0 0, url 1 0 0, url 1 0 1, url 1 1 0, url 1 1 1]"
    by (simp add: downloadTiles_def numeral_2_eq_2 upt_rec)
  show ?thesis
    using downloadTiles_length [of url maxZoom] downloadTiles_set [of url maxZoom] two
    by simp
qed


subsection \<open>Evaluation and basic facts\<close>

text \<open>The definitions unfolded when the model is run on a concrete input.\<close>

named_theorems run

declare findExistingCachedFile_def [run] readDirLoop_def [run] lookupDir_def [run]
  lookupName_def [run] lookupExt_def [run] truthy_def [run] stdlib_def [run]
  posix_extname_def [run] posix_basename_def [run] posix_basename_ext_def [run]
  is_slash_def [run] exampleEnv_def [run] cacheNameMatches_def [run] suffix_to_prefix [run]
  fooDisk_def [run] jqueryDisk_def [run] Let_def [run]

declare cssUrl_def [run] bossUrl_def [run] ghostUrl_def [run] upstream_def [run] notFoundOnce_def [run]
  serverDown_def [run] mirrorDisk_def [run] brokenDisk_def [run] noDirs_def [run] offline_def [run]
  cacheResourceFile_def [run] sanitizedBasename_def [run] simple_pathname_def [run]
  simple_resolve_def [run] is_pathEnd_def [run] is_hostEnd_def [run]
  replaceFirst_def [run] hashMatch_def [run] wordDot_def [run] is_word_def [run]
  line_terminator_def [run] lookupExisting_def [run] fetchSuccess_def [run] arrayBuffer_def [run]
  applyMutate_def [run] fingerprintedName_def [run] posix_join_def [run] posix_normalize_def [run]
  posix_dirname_def [run] stripTrailingSlashes_def [run] configOfArgs_def [run]
  defaultConfig_def [run] refreshConfig_def [run] okResponse_def [run] statusResponse_def [run]
  res_ok_def [run] exn_text_def [run] exn_name_def [run] show_nat.simps [run] backoff_def [run]
  digit_char_def [run] cacheResourceFile_try_def [run] tryPublicFetchOrCached_def [run]
  tryPublicFetch_try_def [run] publicFilePath_def [run] origin_def [run] rootUrl_def [run]
  readParsed_def [run] fetchRootPage_def [run] embedCssUrls_def [run] uniq_def [run]
  urlMatchAt_def [run] urlMatchBody_def [run] captureGroup_def [run] is_quote_def [run]
  replaceAll_def [run] replaceJsPapunikaUrls_def [run] b64_char_def [run]
  asciiDecode_def [run] urlPath_def [run]


lemma truthy_Some [simp]: "truthy (Some s) \<longleftrightarrow> s \<noteq> []"
  by (simp add: truthy_def)

lemma truthy_None [simp]: "\<not> truthy None"
  by (simp add: truthy_def)

lemma exn_DenoError [simp]: "exn_name (DenoError e) = e" "exn_text (DenoError e) = e"
  by (simp_all add: exn_name_def exn_text_def)

lemma lookup_given [simp]:
  "name \<noteq> [] \<Longrightarrow> lookupDir lib dir (Some name) = dir"
  "name \<noteq> [] \<Longrightarrow> ext \<noteq> [] \<Longrightarrow> lookupName lib dir (Some name) (Some ext) = name"
  "ext \<noteq> [] \<Longrightarrow> lookupExt lib dir optname (Some ext) = ext"
  by (simp_all add: lookupDir_def lookupName_def lookupExt_def)

lemma findExistingCachedFile_found:
  assumes "readDir_result env tr (lookupDir lib dir name) = (files, err)"
    and "find (cacheNameMatches (lookupName lib dir name ext) (lookupExt lib dir name ext)) files = Some file"
  shows "findExistingCachedFile lib env tr dir name ext
       = (tr @ [ReadDir (lookupDir lib dir name)], Inr (Some file))"
  using assms by (simp add: findExistingCachedFile_def readDirLoop_def)

lemma findExistingCachedFile_absent:
  assumes "readDir_result env tr (lookupDir lib dir name) = (files, None)"
    and "find (cacheNameMatches (lookupName lib dir name ext) (lookupExt lib dir name ext)) files = None"
  shows "findExistingCachedFile lib env tr dir name ext
       = (tr @ [ReadDir (lookupDir lib dir name)], Inr None)"
  using assms by (simp add: findExistingCachedFile_def readDirLoop_def)

lemma findExistingCachedFile_failed:
  assumes "readDir_result env tr (lookupDir lib dir name) = (files, Some e)"
    and "find (cacheNameMatches (lookupName lib dir name ext) (lookupExt lib dir name ext)) files = None"
  shows "findExistingCachedFile lib env tr dir name ext
       = (tr @ [ReadDir (lookupDir lib dir name)]
            @ (if e \<noteq> ''NotFound'' \<and> e \<noteq> ''PermissionDenied'' then [Console Warn [e]] else []),
          Inr None)"
  using assms by (simp add: findExistingCachedFile_def readDirLoop_def)

lemma findExistingCachedFile_returns:
  "\<exists>tr1 found. findExistingCachedFile lib env tr dir name ext = (tr1, Inr found)"
  by (auto simp: findExistingCachedFile_def readDirLoop_def split: prod.splits option.splits sum.splits)


subsection \<open>How the functions run\<close>

lemma fetches_append [simp]: "fetches (a @ b) = fetches a @ fetches b"
  by (induction a rule: fetches.induct) simp_all

lemma writes_append [simp]: "writes (a @ b) = writes a @ writes b"
  by (induction a rule: writes.induct) simp_all

lemma sleeps_append [simp]: "sleeps (a @ b) = sleeps a @ sleeps b"
  by (induction a rule: sleeps.induct) simp_all


lemma fetchSuccess_rejected:
  "fetch_result env tr url = None \<Longrightarrow> fetchSuccess env tr url = (tr @ [Fetch url], Inl FetchFailed)"
  by (simp add: fetchSuccess_def)


lemma fetchSuccess_ok:
  "fetch_result env tr url = Some res \<Longrightarrow> res_ok res \<Longrightarrow>
   fetchSuccess env tr url = (tr @ [Fetch url], Inr res)"
  by (simp add: fetchSuccess_def)


lemma cacheResourceFile_try_fetch_failed:
  "fetchSuccess env tr url = (tr1, Inl e) \<Longrightarrow>
   cacheResourceFile_try lib env tr url pfx mutate filename extname writedir = (tr1, Inl e)"
  by (simp add: cacheResourceFile_try_def)

lemma cacheResourceFile_try_written:
  assumes "fetch_result env tr url = Some res" and "res_ok res" and "res_body res = Some fetched"
    and "applyMutate mutate (tr @ [Fetch url]) url fetched = (tr2, Inr contents)"
    and "writepath = path_join lib writedir (fingerprintedName lib filename extname contents)"
    and "mkdir_result env (tr2 @ [Console Log [''caching resource'', url]]) (path_dirname lib writepath) = None"
    and "writeFile_result env
           (tr2 @ [Console Log [''caching resource'', url], Mkdir (path_dirname lib writepath)])
           writepath contents = None"
  shows "cacheResourceFile_try lib env tr url pfx mutate filename extname writedir
       = (tr2 @ [Console Log [''caching resource'', url], Mkdir (path_dirname lib writepath),
                 WriteFile writepath contents],
          Inr (path_join lib pfx (fingerprintedName lib filename extname contents)))"
  using assms by (simp add: cacheResourceFile_try_def fetchSuccess_ok arrayBuffer_def Let_def)

lemma cacheResourceFile_loop_served:
  "cacheResourceFile_try lib env tr url pfx mutate filename extname writedir = (tr1, Inr served) \<Longrightarrow>
   cacheResourceFile_loop (Suc fuel) lib env url pfx mutate filename extname writedir existing i tr
     = Some (tr1, Inr served)"
  by simp

lemma cacheResourceFile_loop_stale:
  "cacheResourceFile_try lib env tr url pfx mutate filename extname writedir = (tr1, Inl err) \<Longrightarrow>
   truthy existing \<Longrightarrow>
   cacheResourceFile_loop (Suc fuel) lib env url pfx mutate filename extname writedir existing i tr
     = Some (tr1 @ [Console Err [''failed to cache '' @ url @ '':'', exn_text err],
                    Console Log [''reusing cached resource'', path_join lib pfx (the existing)]],
             Inr (path_join lib pfx (the existing)))"
  by (simp add: Let_def)



lemma cacheResourceFile_miss:
  assumes "sanitizedBasename lib url = Inr sanitized"
    and "lookupExisting cfg lib env tr (path_join lib (outdir cfg) pfx)
           (Some (path_basename_ext lib sanitized (path_extname lib sanitized)))
           (Some (path_extname lib sanitized)) = (tr1, Inr existing)"
    and "\<not> truthy existing \<or> refresh cfg"
  shows "cacheResourceFile cfg lib env fuel tr url pfx mutate
       = cacheResourceFile_loop fuel lib env url pfx mutate
           (path_basename_ext lib sanitized (path_extname lib sanitized))
           (path_extname lib sanitized) (path_join lib (outdir cfg) pfx) existing 0 tr1"
  using assms by (auto simp: cacheResourceFile_def Let_def)



lemma tryPublicFetchOrCached_miss:
  assumes "prefix origin url"
    and "lookupExisting cfg lib env tr (publicFilePath cfg lib url) None None = (tr1, Inr existing)"
    and "\<not> truthy existing \<or> refresh cfg"
  shows "tryPublicFetchOrCached cfg lib env fuel tr url parse
       = tryPublicFetch_loop fuel lib env url parse (publicFilePath cfg lib url) existing 0 tr1"
  using assms by (auto simp: tryPublicFetchOrCached_def Let_def)




subsection \<open>The digest\<close>










subsection \<open>The files written\<close>










subsection \<open>The examples, evaluated\<close>

lemma md5_body: "md5 ''body{}'' = ''aa676972bbd2b68e94ef8e91e81d20be''"
  by code_simp

lemma stdlib_fields [simp]:
  "path_join stdlib = posix_join" "path_basename stdlib = posix_basename"
  "path_basename_ext stdlib = posix_basename_ext" "path_dirname stdlib = posix_dirname"
  "path_extname stdlib = posix_extname" "url_pathname stdlib = simple_pathname"
  "url_resolve stdlib = simple_resolve" "text_decode stdlib = asciiDecode"
  "text_encode stdlib = (\<lambda>s. s)" "md5_hex stdlib = md5" "b64_encode stdlib = base64"
  "json_parse stdlib = Some"
  by (simp_all add: stdlib_def)

lemma example_paths:
  "sanitizedBasename stdlib cssUrl = Inr ''style.css''"
  "posix_extname ''style.css'' = ''.css''"
  "posix_basename_ext ''style.css'' ''.css'' = ''style''"
  "posix_join ''mirror'' ''static/css'' = ''mirror/static/css''"
  "posix_join ''static/css'' ''style-aa676972bbd2b68e94ef8e91e81d20be.css''
     = ''static/css/style-aa676972bbd2b68e94ef8e91e81d20be.css''"
  "posix_join ''mirror/static/css'' ''style-aa676972bbd2b68e94ef8e91e81d20be.css''
     = ''mirror/static/css/style-aa676972bbd2b68e94ef8e91e81d20be.css''"
  "posix_dirname ''mirror/static/css/style-aa676972bbd2b68e94ef8e91e81d20be.css'' = ''mirror/static/css''"
  "publicFilePath defaultConfig stdlib bossUrl = ''mirror/assets/boss.png''"
  "outdir defaultConfig = ''mirror''" "outdir refreshConfig = ''mirror''"
  "canReuseCache defaultConfig" "\<not> refresh defaultConfig"
  "canReuseCache refreshConfig" "refresh refreshConfig"
  "posix_join ''mirror'' ''assets/boss.png'' = ''mirror/assets/boss.png''"
  "posix_dirname ''mirror/assets/boss.png'' = ''mirror/assets''"
  "posix_basename ''mirror/assets/boss.png'' = ''boss.png''"
  "prefix origin bossUrl" "prefix origin ghostUrl"
  "publicFilePath defaultConfig stdlib ghostUrl = ''mirror/assets/ghost.png''"
  "exn_text (BadStatusCodeError 404) = ''bad status code: 404''"
  "exn_text (BadStatusCodeError 500) = ''bad status code: 500''"
  "show_nat (backoff 0) = ''250''" "backoff 0 = 250" "show_nat 250 = ''250''"
  by (simp_all add: run)


lemma css_try_down:
  "cacheResourceFile_try stdlib (exampleEnv serverDown noDirs) [] cssUrl ''static/css'' None
       ''style'' ''.css'' ''mirror/static/css''
     = ([Fetch cssUrl], Inl (BadStatusCodeError 500))"
  using cacheResourceFile_try_fetch_failed [where env = "exampleEnv serverDown noDirs" and tr = "[]"
      and url = cssUrl and ?tr1.0 = "[Fetch cssUrl]" and e = "BadStatusCodeError 500"]
  by (simp add: fetchSuccess_def exampleEnv_def serverDown_def statusResponse_def res_ok_def)

subsection \<open>Cache Index\<close>







text \<open>
  C8. \<open>findExistingCachedFile\<close> never throws: in every environment it returns a name or
  \<open>undefined\<close>. When the enumeration of the directory fails before an entry matched, it
  returns \<open>undefined\<close>, after a warning with the error unless the error is \<open>NotFound\<close> or
  \<open>PermissionDenied\<close>; for a missing directory it returns \<open>undefined\<close> and logs nothing.
  Both callers then enter their fetch loop with no cached copy: the failure of the lookup
  does not end the call, the resource is fetched.
\<close>

theorem findExistingCachedFile_fails_open:
  "(\<exists>trL found. findExistingCachedFile lib env tr dir name ext = (trL, Inr found))
   \<and> (readDir_result env tr (lookupDir lib dir name) = (files, Some e)
       \<and> find (cacheNameMatches (lookupName lib dir name ext) (lookupExt lib dir name ext)) files = None
      \<longrightarrow> findExistingCachedFile lib env tr dir name ext
            = (tr @ [ReadDir (lookupDir lib dir name)]
                  @ (if e \<noteq> ''NotFound'' \<and> e \<noteq> ''PermissionDenied'' then [Console Warn [e]] else []),
               Inr None))
   \<and> (readDir_result env tr (lookupDir lib dir name) = ([], Some ''NotFound'')
      \<longrightarrow> findExistingCachedFile lib env tr dir name ext
            = (tr @ [ReadDir (lookupDir lib dir name)], Inr None))
   \<and> (canReuseCache cfg \<and> sanitizedBasename lib url = Inr sanitized
       \<and> readDir_result env tr
            (lookupDir lib (path_join lib (outdir cfg) pfx)
               (Some (path_basename_ext lib sanitized (path_extname lib sanitized))))
           = (files, Some e)
       \<and> find (cacheNameMatches
                 (lookupName lib (path_join lib (outdir cfg) pfx)
                    (Some (path_basename_ext lib sanitized (path_extname lib sanitized)))
                    (Some (path_extname lib sanitized)))
                 (lookupExt lib (path_join lib (outdir cfg) pfx)
                    (Some (path_basename_ext lib sanitized (path_extname lib sanitized)))
                    (Some (path_extname lib sanitized)))) files = None
      \<longrightarrow> cacheResourceFile cfg lib env fuel tr url pfx mutate
            = cacheResourceFile_loop fuel lib env url pfx mutate
                (path_basename_ext lib sanitized (path_extname lib sanitized))
                (path_extname lib sanitized) (path_join lib (outdir cfg) pfx) None 0
                (tr @ [ReadDir (lookupDir lib (path_join lib (outdir cfg) pfx)
                         (Some (path_basename_ext lib sanitized (path_extname lib sanitized))))]
                    @ (if e \<noteq> ''NotFound'' \<and> e \<noteq> ''PermissionDenied''
                       then [Console Warn [e]] else [])))
   \<and> (canReuseCache cfg \<and> prefix origin url
       \<and> readDir_result env tr (lookupDir lib (publicFilePath cfg lib url) None) = (files, Some e)
       \<and> find (cacheNameMatches (lookupName lib (publicFilePath cfg lib url) None None)
                 (lookupExt lib (publicFilePath cfg lib url) None None)) files = None
      \<longrightarrow> tryPublicFetchOrCached cfg lib env fuel tr url parse
            = tryPublicFetch_loop fuel lib env url parse (publicFilePath cfg lib url) None 0
                (tr @ [ReadDir (lookupDir lib (publicFilePath cfg lib url) None)]
                    @ (if e \<noteq> ''NotFound'' \<and> e \<noteq> ''PermissionDenied''
                       then [Console Warn [e]] else [])))"
proof (intro conjI impI)
  show "\<exists>trL found. findExistingCachedFile lib env tr dir name ext = (trL, Inr found)"
    by (rule findExistingCachedFile_returns)
next
  assume "readDir_result env tr (lookupDir lib dir name) = (files, Some e)
       \<and> find (cacheNameMatches (lookupName lib dir name ext) (lookupExt lib dir name ext)) files = None"
  then show "findExistingCachedFile lib env tr dir name ext
            = (tr @ [ReadDir (lookupDir lib dir name)]
                  @ (if e \<noteq> ''NotFound'' \<and> e \<noteq> ''PermissionDenied'' then [Console Warn [e]] else []),
               Inr None)"
    using findExistingCachedFile_failed by blast
next
  assume "readDir_result env tr (lookupDir lib dir name) = ([], Some ''NotFound'')"
  then show "findExistingCachedFile lib env tr dir name ext
            = (tr @ [ReadDir (lookupDir lib dir name)], Inr None)"
    using findExistingCachedFile_failed [of env tr lib dir name "[]" "''NotFound''" ext] by simp
next
  let ?dir = "path_join lib (outdir cfg) pfx"
  let ?name = "Some (path_basename_ext lib sanitized (path_extname lib sanitized))"
  let ?ext = "Some (path_extname lib sanitized)"
  let ?trL = "tr @ [ReadDir (lookupDir lib ?dir ?name)]
                    @ (if e \<noteq> ''NotFound'' \<and> e \<noteq> ''PermissionDenied''
                       then [Console Warn [e]] else [])"
  assume h: "canReuseCache cfg \<and> sanitizedBasename lib url = Inr sanitized
       \<and> readDir_result env tr (lookupDir lib ?dir ?name) = (files, Some e)
       \<and> find (cacheNameMatches (lookupName lib ?dir ?name ?ext) (lookupExt lib ?dir ?name ?ext)) files = None"
  then have "findExistingCachedFile lib env tr ?dir ?name ?ext = (?trL, Inr None)"
    using findExistingCachedFile_failed by blast
  then have look: "lookupExisting cfg lib env tr ?dir ?name ?ext = (?trL, Inr None)"
    using h by (simp add: lookupExisting_def)
  have name: "sanitizedBasename lib url = Inr sanitized"
    using h by simp
  show "cacheResourceFile cfg lib env fuel tr url pfx mutate
            = cacheResourceFile_loop fuel lib env url pfx mutate
                (path_basename_ext lib sanitized (path_extname lib sanitized))
                (path_extname lib sanitized) ?dir None 0 ?trL"
    by (rule cacheResourceFile_miss [OF name look]) simp
next
  let ?path = "publicFilePath cfg lib url"
  let ?trL = "tr @ [ReadDir (lookupDir lib ?path None)]
                    @ (if e \<noteq> ''NotFound'' \<and> e \<noteq> ''PermissionDenied''
                       then [Console Warn [e]] else [])"
  assume h: "canReuseCache cfg \<and> prefix origin url
       \<and> readDir_result env tr (lookupDir lib ?path None) = (files, Some e)
       \<and> find (cacheNameMatches (lookupName lib ?path None None)
                 (lookupExt lib ?path None None)) files = None"
  then have "findExistingCachedFile lib env tr ?path None None = (?trL, Inr None)"
    using findExistingCachedFile_failed by blast
  then have look: "lookupExisting cfg lib env tr ?path None None = (?trL, Inr None)"
    using h by (simp add: lookupExisting_def)
  have pre: "prefix origin url"
    using h by simp
  show "tryPublicFetchOrCached cfg lib env fuel tr url parse
            = tryPublicFetch_loop fuel lib env url parse ?path None 0 ?trL"
    by (rule tryPublicFetchOrCached_miss [OF pre look]) simp
qed

theorem findExistingCachedFile_fails_open_witness:
  "readDir_result (exampleEnv upstream brokenDisk) [] ''mirror/static/css'' = ([], Some ''Error'')
   \<and> readDir_result (exampleEnv upstream noDirs) [] ''mirror/static/css'' = ([], Some ''NotFound'')
   \<and> readDir_result (exampleEnv upstream brokenDisk) [] ''mirror/assets'' = ([], Some ''Error'')
   \<and> canReuseCache defaultConfig
   \<and> sanitizedBasename stdlib cssUrl = Inr ''style.css''
   \<and> prefix origin ghostUrl
   \<and> findExistingCachedFile stdlib (exampleEnv upstream brokenDisk) [] ''mirror/static/css''
         (Some ''style'') (Some ''.css'')
       = ([ReadDir ''mirror/static/css'', Console Warn [''Error'']], Inr None)
   \<and> findExistingCachedFile stdlib (exampleEnv upstream noDirs) [] ''mirror/static/css''
         (Some ''style'') (Some ''.css'')
       = ([ReadDir ''mirror/static/css''], Inr None)
   \<and> cacheResourceFile defaultConfig stdlib (exampleEnv upstream brokenDisk) 1 [] cssUrl ''static/css'' None
       = Some ([ReadDir ''mirror/static/css'', Console Warn [''Error''], Fetch cssUrl,
                Console Log [''caching resource'', cssUrl], Mkdir ''mirror/static/css'',
                WriteFile ''mirror/static/css/style-aa676972bbd2b68e94ef8e91e81d20be.css'' ''body{}''],
               Inr ''static/css/style-aa676972bbd2b68e94ef8e91e81d20be.css'')
   \<and> tryPublicFetchOrCached defaultConfig stdlib (exampleEnv upstream brokenDisk) 1 [] bossUrl False
       = Some ([ReadDir ''mirror/assets'', Console Warn [''Error''], Fetch bossUrl,
                Console Warn [''fetched and cached url:'', bossUrl], Mkdir ''mirror/assets'',
                WriteFile ''mirror/assets/boss.png'' ''PNG''],
               Inr None)"
proof -
  let ?env = "exampleEnv upstream brokenDisk"
  let ?trL = "[ReadDir ''mirror/static/css'', Console Warn [''Error'']]"
  let ?trA = "[ReadDir ''mirror/assets'', Console Warn [''Error'']]"
  have dirs: "readDir_result ?env t d = ([], Some ''Error'')"
    "readDir_result (exampleEnv upstream noDirs) t d = ([], Some ''NotFound'')" for t d
    by (simp_all add: exampleEnv_def brokenDisk_def noDirs_def)
  have env_facts: "fetch_result ?env ?trL cssUrl = Some (okResponse ''text/css'' ''body{}'')"
    "res_ok (okResponse ''text/css'' ''body{}'')"
    "res_body (okResponse ''text/css'' ''body{}'') = Some ''body{}''"
    "applyMutate None (?trL @ [Fetch cssUrl]) cssUrl ''body{}'' = (?trL @ [Fetch cssUrl], Inr ''body{}'')"
    "mkdir_result ?env t d = None" "writeFile_result ?env t p c = None" for t d p c
    by (simp_all add: exampleEnv_def upstream_def cssUrl_def okResponse_def res_ok_def
        applyMutate_def)
  have written: "cacheResourceFile_try stdlib ?env ?trL cssUrl ''static/css'' None
         ''style'' ''.css'' ''mirror/static/css''
       = (?trL @ [Fetch cssUrl] @ [Console Log [''caching resource'', cssUrl], Mkdir ''mirror/static/css'',
           WriteFile ''mirror/static/css/style-aa676972bbd2b68e94ef8e91e81d20be.css'' ''body{}''],
          Inr ''static/css/style-aa676972bbd2b68e94ef8e91e81d20be.css'')"
    using cacheResourceFile_try_written [where env = ?env and tr = ?trL and url = cssUrl
        and res = "okResponse ''text/css'' ''body{}''" and fetched = "''body{}''" and mutate = None
        and ?tr2.0 = "?trL @ [Fetch cssUrl]" and contents = "''body{}''" and lib = stdlib
        and writedir = "''mirror/static/css''" and filename = "''style''" and extname = "''.css''"
        and pfx = "''static/css''"
        and writepath = "''mirror/static/css/style-aa676972bbd2b68e94ef8e91e81d20be.css''",
        OF env_facts(1,2,3,4)]
    by (simp add: env_facts(5,6) example_paths md5_body fingerprintedName_def)
  have served: "cacheResourceFile_loop (Suc 0) stdlib ?env cssUrl ''static/css'' None ''style'' ''.css''
         ''mirror/static/css'' None 0 ?trL
       = Some (?trL @ [Fetch cssUrl] @ [Console Log [''caching resource'', cssUrl], Mkdir ''mirror/static/css'',
           WriteFile ''mirror/static/css/style-aa676972bbd2b68e94ef8e91e81d20be.css'' ''body{}''],
          Inr ''static/css/style-aa676972bbd2b68e94ef8e91e81d20be.css'')"
    using written by (rule cacheResourceFile_loop_served)
  have boss: "tryPublicFetch_loop (Suc 0) stdlib ?env bossUrl False ''mirror/assets/boss.png'' None 0 ?trA
       = Some ([ReadDir ''mirror/assets'', Console Warn [''Error''], Fetch bossUrl,
                Console Warn [''fetched and cached url:'', bossUrl], Mkdir ''mirror/assets'',
                WriteFile ''mirror/assets/boss.png'' ''PNG''],
               Inr None)"
    by (simp add: tryPublicFetch_try_def fetchSuccess_def arrayBuffer_def exampleEnv_def
        upstream_def bossUrl_def cssUrl_def okResponse_def res_ok_def Let_def example_paths)
  note inst = findExistingCachedFile_fails_open [where lib = stdlib and env = ?env and tr = "[]"
      and files = "[]" and e = "''Error''" and cfg = defaultConfig and sanitized = "''style.css''"
      and pfx = "''static/css''" and fuel = "Suc 0" and mutate = None and parse = False
      and dir = "''mirror/static/css''" and name = "Some ''style''" and ext = "Some ''.css''"]
  have a: "findExistingCachedFile stdlib ?env [] ''mirror/static/css'' (Some ''style'') (Some ''.css'')
       = ([ReadDir ''mirror/static/css'', Console Warn [''Error'']], Inr None)"
    using inst [where url = cssUrl, THEN conjunct2, THEN conjunct1]
    by (simp add: dirs)
  have b: "cacheResourceFile defaultConfig stdlib ?env (Suc 0) [] cssUrl ''static/css'' None
       = cacheResourceFile_loop (Suc 0) stdlib ?env cssUrl ''static/css'' None ''style'' ''.css''
         ''mirror/static/css'' None 0 ?trL"
    using inst [where url = cssUrl, THEN conjunct2, THEN conjunct2, THEN conjunct2, THEN conjunct1]
    by (simp add: dirs example_paths del: cacheResourceFile_loop.simps)
  have c: "tryPublicFetchOrCached defaultConfig stdlib ?env (Suc 0) [] bossUrl False
       = tryPublicFetch_loop (Suc 0) stdlib ?env bossUrl False ''mirror/assets/boss.png'' None 0 ?trA"
    using inst [where url = bossUrl, THEN conjunct2, THEN conjunct2, THEN conjunct2, THEN conjunct2]
    by (simp add: dirs example_paths lookupDir_def del: tryPublicFetch_loop.simps)
  have d: "findExistingCachedFile stdlib (exampleEnv upstream noDirs) [] ''mirror/static/css''
         (Some ''style'') (Some ''.css'') = ([ReadDir ''mirror/static/css''], Inr None)"
    using findExistingCachedFile_fails_open [where lib = stdlib and env = "exampleEnv upstream noDirs"
        and tr = "[]" and dir = "''mirror/static/css''" and name = "Some ''style''"
        and ext = "Some ''.css''", THEN conjunct2, THEN conjunct2, THEN conjunct1]
    by (simp add: dirs)
  show ?thesis
    unfolding One_nat_def b c served boss
    using a d by (simp add: dirs example_paths)
qed

subsection \<open>Direct mirroring\<close>

text \<open>
  C9. For a URL that does not start with the origin, \<open>tryPublicFetchOrCached\<close> rejects
  with the error \<open>bad url\<close> and the trace is unchanged: no request and no file-system call
  is made, whatever the configuration, the \<open>parse\<close> flag and the fuel.
\<close>

theorem tryPublicFetchOrCached_bad_url:
  "\<not> prefix origin url \<Longrightarrow>
   tryPublicFetchOrCached cfg lib env fuel tr url parse = Some (tr, Inl (Error (''bad url: '' @ url)))"
  by (simp add: tryPublicFetchOrCached_def)

theorem tryPublicFetchOrCached_bad_url_witness:
  "\<not> prefix origin ''https://example.com/a.png''
   \<and> tryPublicFetchOrCached defaultConfig stdlib (exampleEnv offline noDirs) 0 [] ''https://example.com/a.png'' False
       = Some ([], Inl (Error ''bad url: https://example.com/a.png''))"
  using tryPublicFetchOrCached_bad_url [of "''https://example.com/a.png''" defaultConfig stdlib "exampleEnv offline noDirs" 0 "[]" False]
  by (simp add: origin_def)

subsection \<open>Resource Cache Writer and Retrying Fetcher\<close>

text \<open>
  C3. When \<open>cacheResourceFile\<close> found a cached copy and a refresh is requested, any failure
  of the \<open>try\<close> block (fetching, reading the body, the transform, creating the directory,
  writing the file) ends the call at once: the error is logged and the path of the stale
  copy is returned; nothing is thrown, and there is no delay and no further attempt.
\<close>

theorem cacheResourceFile_stale_fallback:
  assumes "sanitizedBasename lib url = Inr sanitized"
    and "lookupExisting cfg lib env tr (path_join lib (outdir cfg) pfx)
           (Some (path_basename_ext lib sanitized (path_extname lib sanitized)))
           (Some (path_extname lib sanitized)) = (trL, Inr (Some cached))"
    and "cached \<noteq> []"
    and "refresh cfg"
    and "cacheResourceFile_try lib env trL url pfx mutate
           (path_basename_ext lib sanitized (path_extname lib sanitized))
           (path_extname lib sanitized) (path_join lib (outdir cfg) pfx) = (trT, Inl err)"
  shows "cacheResourceFile cfg lib env (Suc fuel) tr url pfx mutate
       = Some (trT @ [Console Err [''failed to cache '' @ url @ '':'', exn_text err],
                      Console Log [''reusing cached resource'', path_join lib pfx cached]],
               Inr (path_join lib pfx cached))"
proof -
  have "cacheResourceFile cfg lib env (Suc fuel) tr url pfx mutate
      = cacheResourceFile_loop (Suc fuel) lib env url pfx mutate
          (path_basename_ext lib sanitized (path_extname lib sanitized))
          (path_extname lib sanitized) (path_join lib (outdir cfg) pfx) (Some cached) 0 trL"
    using assms(1,2,4) by (rule cacheResourceFile_miss [OF _ _ disjI2])
  also have "\<dots> = Some (trT @ [Console Err [''failed to cache '' @ url @ '':'', exn_text err],
                      Console Log [''reusing cached resource'', path_join lib pfx (the (Some cached))]],
               Inr (path_join lib pfx (the (Some cached))))"
    using assms(5) by (rule cacheResourceFile_loop_stale) (simp add: assms(3))
  finally show ?thesis by simp
qed

theorem cacheResourceFile_stale_fallback_witness:
  "sanitizedBasename stdlib cssUrl = Inr ''style.css''
   \<and> lookupExisting refreshConfig stdlib (exampleEnv serverDown mirrorDisk) []
         ''mirror/static/css'' (Some ''style'') (Some ''.css'')
       = ([ReadDir ''mirror/static/css''], Inr (Some ''style-aa676972bbd2b68e94ef8e91e81d20be.css''))
   \<and> refresh refreshConfig
   \<and> cacheResourceFile_try stdlib (exampleEnv serverDown mirrorDisk) [ReadDir ''mirror/static/css'']
         cssUrl ''static/css'' None ''style'' ''.css'' ''mirror/static/css''
       = ([ReadDir ''mirror/static/css'', Fetch cssUrl], Inl (BadStatusCodeError 500))
   \<and> cacheResourceFile refreshConfig stdlib (exampleEnv serverDown mirrorDisk) 1 [] cssUrl
         ''static/css'' None
       = Some ([ReadDir ''mirror/static/css'', Fetch cssUrl,
                Console Err [''failed to cache '' @ cssUrl @ '':'', ''bad status code: 500''],
                Console Log [''reusing cached resource'',
                  ''static/css/style-aa676972bbd2b68e94ef8e91e81d20be.css'']],
               Inr ''static/css/style-aa676972bbd2b68e94ef8e91e81d20be.css'')"
proof -
  let ?env = "exampleEnv serverDown mirrorDisk"
  have look: "lookupExisting refreshConfig stdlib ?env [] ''mirror/static/css'' (Some ''style'') (Some ''.css'')
       = ([ReadDir ''mirror/static/css''], Inr (Some ''style-aa676972bbd2b68e94ef8e91e81d20be.css''))"
    by (simp add: run)
  have failed: "cacheResourceFile_try stdlib ?env [ReadDir ''mirror/static/css'']
         cssUrl ''static/css'' None ''style'' ''.css'' ''mirror/static/css''
       = ([ReadDir ''mirror/static/css'', Fetch cssUrl], Inl (BadStatusCodeError 500))"
    by (rule cacheResourceFile_try_fetch_failed) (simp add: fetchSuccess_def exampleEnv_def serverDown_def statusResponse_def res_ok_def)
  have text500: "exn_text (BadStatusCodeError 500) = ''bad status code: 500''"
    by (simp add: exn_text_def show_nat.simps digit_char_def)
  have "cacheResourceFile refreshConfig stdlib ?env (Suc 0) [] cssUrl ''static/css'' None
      = Some ([ReadDir ''mirror/static/css'', Fetch cssUrl]
                @ [Console Err [''failed to cache '' @ cssUrl @ '':'', exn_text (BadStatusCodeError 500)],
                   Console Log [''reusing cached resource'',
                     path_join stdlib ''static/css'' ''style-aa676972bbd2b68e94ef8e91e81d20be.css'']],
               Inr (path_join stdlib ''static/css'' ''style-aa676972bbd2b68e94ef8e91e81d20be.css''))"
    using cacheResourceFile_stale_fallback [where lib = stdlib and url = cssUrl
        and sanitized = "''style.css''" and cfg = refreshConfig and env = ?env and tr = "[]"
        and pfx = "''static/css''" and trL = "[ReadDir ''mirror/static/css'']"
        and cached = "''style-aa676972bbd2b68e94ef8e91e81d20be.css''" and mutate = None
        and trT = "[ReadDir ''mirror/static/css'', Fetch cssUrl]"
        and err = "BadStatusCodeError 500" and fuel = 0]
    by (simp add: example_paths look failed)
  then show ?thesis
    using look failed by (simp add: example_paths text500)
qed














subsection \<open>Content transforms\<close>

text \<open>
  C7. \<open>embedCssUrls\<close> on the stylesheet \<open>a{background:url("foo.png")}\<close>, with an upstream
  that answers \<open>foo.png\<close> with 200 and \<open>image/png\<close>: the reference is resolved against the
  stylesheet's URL and fetched, but the text searched for is \<open>url(foo.png)\<close>, without the
  quotes, which does not occur, and the stylesheet is returned unchanged. The unquoted
  reference \<open>url(foo.png)\<close> is replaced by the data URI. A quoted \<open>data:\<close> URI is captured
  as a reference (with its opening quote); an unquoted one is not.
\<close>

theorem embedCssUrls_keeps_quoted_reference:
  "embedCssUrls stdlib (exampleEnv upstream noDirs) [] cssUrl quotedCss
     = ([Fetch ''https://papunika.com/map/css/foo.png''], Inr quotedCss)
   \<and> embedCssUrls stdlib (exampleEnv upstream noDirs) [] cssUrl ''a{background:url(foo.png)}''
     = ([Fetch ''https://papunika.com/map/css/foo.png''],
        Inr ''a{background:url(data:image/png;base64,UE5H)}'')
   \<and> urlMatches quotedCss = [''foo.png'']
   \<and> urlMatches quotedDataCss = [[CHR 0x22] @ ''data:image/png;base64,UE5H'']
   \<and> urlMatches ''a{background:url(data:image/png;base64,UE5H)}'' = []"
proof -
  have m: "urlMatches quotedCss = [''foo.png'']"
    "urlMatches ''a{background:url(foo.png)}'' = [''foo.png'']"
    "urlMatches quotedDataCss = [[CHR 0x22] @ ''data:image/png;base64,UE5H'']"
    "urlMatches ''a{background:url(data:image/png;base64,UE5H)}'' = []"
    by (simp_all add: run quotedCss_def quotedDataCss_def)
  have r: "simple_resolve ''foo.png'' cssUrl = Some ''https://papunika.com/map/css/foo.png''"
    by (simp add: run)
  have f: "fetchSuccess (exampleEnv upstream noDirs) [] ''https://papunika.com/map/css/foo.png''
      = ([Fetch ''https://papunika.com/map/css/foo.png''], Inr (okResponse ''image/png'' ''PNG''))"
    by (simp add: run)
  have q: "replaceAll ''url(foo.png)'' ''url(data:image/png;base64,UE5H)'' quotedCss = quotedCss"
    "replaceAll ''url(foo.png)'' ''url(data:image/png;base64,UE5H)'' ''a{background:url(foo.png)}''
      = ''a{background:url(data:image/png;base64,UE5H)}''"
    by (simp_all add: run quotedCss_def)
  have d: "asciiDecode quotedCss = quotedCss"
    "asciiDecode ''a{background:url(foo.png)}'' = ''a{background:url(foo.png)}''"
    by (simp_all add: run quotedCss_def)
  have one: "embedCssUrls stdlib (exampleEnv upstream noDirs) [] cssUrl quotedCss
     = ([Fetch ''https://papunika.com/map/css/foo.png''], Inr quotedCss)"
    by (simp add: embedCssUrls_def uniq_def m d r f b64_char_def q okResponse_def arrayBuffer_def Let_def
        del: urlMatches.simps)
  have two: "embedCssUrls stdlib (exampleEnv upstream noDirs) [] cssUrl ''a{background:url(foo.png)}''
     = ([Fetch ''https://papunika.com/map/css/foo.png''],
        Inr ''a{background:url(data:image/png;base64,UE5H)}'')"
    by (simp add: embedCssUrls_def uniq_def m d r f b64_char_def q okResponse_def arrayBuffer_def Let_def
        del: urlMatches.simps)
  show ?thesis
    using one two m by simp
qed

subsection \<open>Bulk Resource Enumerator\<close>




end
